theory Spec2Isabelle
  imports Main "HOL-Library.Word" "HOL-Library.Char_ord" "HOL-Library.List_Lexorder"
begin

unbundle bit_operations_syntax

section \<open>Policy translation (OpenConfig routing policy to the engine's policy model)\<close>

subsection \<open>Enumerations\<close>

text \<open>
  The OpenConfig enumerations are Go \<^verbatim>\<open>int64\<close> types generated by ygot: the value 0 is
  the unset value and the named values are numbered from 1 in the order of the schema. A variable
  of such a type can hold any integer, so the model keeps them as integers; only the
  distinctness of the named values matters below.
\<close>

type_synonym E_RoutingPolicy_DefaultPolicyType = int

definition RoutingPolicy_DefaultPolicyType_UNSET :: E_RoutingPolicy_DefaultPolicyType where
  "RoutingPolicy_DefaultPolicyType_UNSET = 0"

definition RoutingPolicy_DefaultPolicyType_ACCEPT_ROUTE :: E_RoutingPolicy_DefaultPolicyType where
  "RoutingPolicy_DefaultPolicyType_ACCEPT_ROUTE = 1"

definition RoutingPolicy_DefaultPolicyType_REJECT_ROUTE :: E_RoutingPolicy_DefaultPolicyType where
  "RoutingPolicy_DefaultPolicyType_REJECT_ROUTE = 2"

type_synonym E_RoutingPolicy_MatchSetOptionsType = int

definition RoutingPolicy_MatchSetOptionsType_ALL :: E_RoutingPolicy_MatchSetOptionsType where
  "RoutingPolicy_MatchSetOptionsType_ALL = 2"

definition RoutingPolicy_MatchSetOptionsType_ANY :: E_RoutingPolicy_MatchSetOptionsType where
  "RoutingPolicy_MatchSetOptionsType_ANY = 1"

definition RoutingPolicy_MatchSetOptionsType_INVERT :: E_RoutingPolicy_MatchSetOptionsType where
  "RoutingPolicy_MatchSetOptionsType_INVERT = 3"

type_synonym E_RoutingPolicy_MatchSetOptionsRestrictedType = int

definition RoutingPolicy_MatchSetOptionsRestrictedType_ANY ::
  E_RoutingPolicy_MatchSetOptionsRestrictedType where
  "RoutingPolicy_MatchSetOptionsRestrictedType_ANY = 1"

definition RoutingPolicy_MatchSetOptionsRestrictedType_INVERT ::
  E_RoutingPolicy_MatchSetOptionsRestrictedType where
  "RoutingPolicy_MatchSetOptionsRestrictedType_INVERT = 2"

type_synonym E_RoutingPolicy_PolicyResultType = int

definition RoutingPolicy_PolicyResultType_ACCEPT_ROUTE :: E_RoutingPolicy_PolicyResultType where
  "RoutingPolicy_PolicyResultType_ACCEPT_ROUTE = 1"

definition RoutingPolicy_PolicyResultType_REJECT_ROUTE :: E_RoutingPolicy_PolicyResultType where
  "RoutingPolicy_PolicyResultType_REJECT_ROUTE = 2"

type_synonym E_BgpTypes_BGP_WELL_KNOWN_STD_COMMUNITY = int

definition BgpTypes_BGP_WELL_KNOWN_STD_COMMUNITY_NOPEER ::
  E_BgpTypes_BGP_WELL_KNOWN_STD_COMMUNITY where
  "BgpTypes_BGP_WELL_KNOWN_STD_COMMUNITY_NOPEER = 1"

definition BgpTypes_BGP_WELL_KNOWN_STD_COMMUNITY_NO_ADVERTISE ::
  E_BgpTypes_BGP_WELL_KNOWN_STD_COMMUNITY where
  "BgpTypes_BGP_WELL_KNOWN_STD_COMMUNITY_NO_ADVERTISE = 2"

definition BgpTypes_BGP_WELL_KNOWN_STD_COMMUNITY_NO_EXPORT ::
  E_BgpTypes_BGP_WELL_KNOWN_STD_COMMUNITY where
  "BgpTypes_BGP_WELL_KNOWN_STD_COMMUNITY_NO_EXPORT = 3"

definition BgpTypes_BGP_WELL_KNOWN_STD_COMMUNITY_NO_EXPORT_SUBCONFED ::
  E_BgpTypes_BGP_WELL_KNOWN_STD_COMMUNITY where
  "BgpTypes_BGP_WELL_KNOWN_STD_COMMUNITY_NO_EXPORT_SUBCONFED = 4"

type_synonym E_SetCommunity_Method = int

definition SetCommunity_Method_INLINE :: E_SetCommunity_Method where
  "SetCommunity_Method_INLINE = 1"

definition SetCommunity_Method_REFERENCE :: E_SetCommunity_Method where
  "SetCommunity_Method_REFERENCE = 2"

text \<open>
  The engine's configuration package declares its enumerations as Go string types; these
  are its constants.
\<close>

type_synonym DefaultPolicyType = string

definition DEFAULT_POLICY_TYPE_ACCEPT_ROUTE :: DefaultPolicyType where
  "DEFAULT_POLICY_TYPE_ACCEPT_ROUTE = ''accept-route''"

definition DEFAULT_POLICY_TYPE_REJECT_ROUTE :: DefaultPolicyType where
  "DEFAULT_POLICY_TYPE_REJECT_ROUTE = ''reject-route''"

type_synonym RouteDisposition = string

definition ROUTE_DISPOSITION_NONE :: RouteDisposition where
  "ROUTE_DISPOSITION_NONE = ''none''"

definition ROUTE_DISPOSITION_ACCEPT_ROUTE :: RouteDisposition where
  "ROUTE_DISPOSITION_ACCEPT_ROUTE = ''accept-route''"

definition ROUTE_DISPOSITION_REJECT_ROUTE :: RouteDisposition where
  "ROUTE_DISPOSITION_REJECT_ROUTE = ''reject-route''"

type_synonym MatchSetOptionsType = string

definition MATCH_SET_OPTIONS_TYPE_ANY :: MatchSetOptionsType where
  "MATCH_SET_OPTIONS_TYPE_ANY = ''any''"

definition MATCH_SET_OPTIONS_TYPE_ALL :: MatchSetOptionsType where
  "MATCH_SET_OPTIONS_TYPE_ALL = ''all''"

definition MATCH_SET_OPTIONS_TYPE_INVERT :: MatchSetOptionsType where
  "MATCH_SET_OPTIONS_TYPE_INVERT = ''invert''"

type_synonym MatchSetOptionsRestrictedType = string

definition MATCH_SET_OPTIONS_RESTRICTED_TYPE_ANY :: MatchSetOptionsRestrictedType where
  "MATCH_SET_OPTIONS_RESTRICTED_TYPE_ANY = ''any''"

definition MATCH_SET_OPTIONS_RESTRICTED_TYPE_INVERT :: MatchSetOptionsRestrictedType where
  "MATCH_SET_OPTIONS_RESTRICTED_TYPE_INVERT = ''invert''"

subsection \<open>Enumeration conversions\<close>

text \<open>A Go \<^verbatim>\<open>switch\<close> takes the first matching case; the model keeps the case order.\<close>

definition convertDefaultPolicy :: "E_RoutingPolicy_DefaultPolicyType \<Rightarrow> DefaultPolicyType" where
  "convertDefaultPolicy ocpolicy =
     (if ocpolicy = RoutingPolicy_DefaultPolicyType_REJECT_ROUTE
        then DEFAULT_POLICY_TYPE_REJECT_ROUTE
      else if ocpolicy = RoutingPolicy_DefaultPolicyType_ACCEPT_ROUTE
        then DEFAULT_POLICY_TYPE_ACCEPT_ROUTE
      else DEFAULT_POLICY_TYPE_REJECT_ROUTE)"

definition convertMatchSetOptionsType ::
  "E_RoutingPolicy_MatchSetOptionsType \<Rightarrow> MatchSetOptionsType" where
  "convertMatchSetOptionsType ocMatchSetOpts =
     (if ocMatchSetOpts = RoutingPolicy_MatchSetOptionsType_INVERT
        then MATCH_SET_OPTIONS_TYPE_INVERT
      else if ocMatchSetOpts = RoutingPolicy_MatchSetOptionsType_ANY
        then MATCH_SET_OPTIONS_TYPE_ANY
      else if ocMatchSetOpts = RoutingPolicy_MatchSetOptionsType_ALL
        then MATCH_SET_OPTIONS_TYPE_ALL
      else MATCH_SET_OPTIONS_TYPE_ANY)"

definition convertMatchSetOptionsRestrictedType ::
  "E_RoutingPolicy_MatchSetOptionsRestrictedType \<Rightarrow> MatchSetOptionsRestrictedType" where
  "convertMatchSetOptionsRestrictedType ocrestrictedMatchSetOpts =
     (if ocrestrictedMatchSetOpts = RoutingPolicy_MatchSetOptionsRestrictedType_INVERT
        then MATCH_SET_OPTIONS_RESTRICTED_TYPE_INVERT
      else if ocrestrictedMatchSetOpts = RoutingPolicy_MatchSetOptionsRestrictedType_ANY
        then MATCH_SET_OPTIONS_RESTRICTED_TYPE_ANY
      else MATCH_SET_OPTIONS_RESTRICTED_TYPE_ANY)"

definition convertRouteDisposition :: "E_RoutingPolicy_PolicyResultType \<Rightarrow> RouteDisposition" where
  "convertRouteDisposition ocpolicyresult =
     (if ocpolicyresult = RoutingPolicy_PolicyResultType_REJECT_ROUTE
        then ROUTE_DISPOSITION_REJECT_ROUTE
      else if ocpolicyresult = RoutingPolicy_PolicyResultType_ACCEPT_ROUTE
        then ROUTE_DISPOSITION_ACCEPT_ROUTE
      else ROUTE_DISPOSITION_NONE)"

definition defaultPolicyToRouteDisp :: "DefaultPolicyType \<Rightarrow> RouteDisposition" where
  "defaultPolicyToRouteDisp gobgpdefaultpolicy =
     (if gobgpdefaultpolicy = DEFAULT_POLICY_TYPE_REJECT_ROUTE
        then ROUTE_DISPOSITION_REJECT_ROUTE
      else if gobgpdefaultpolicy = DEFAULT_POLICY_TYPE_ACCEPT_ROUTE
        then ROUTE_DISPOSITION_ACCEPT_ROUTE
      else ROUTE_DISPOSITION_REJECT_ROUTE)"

subsection \<open>Decimal rendering\<close>

text \<open>\<^verbatim>\<open>strconv.FormatUint(n, 10)\<close> and the \<^verbatim>\<open>%d\<close> verb on unsigned values.\<close>

definition digitChar :: "nat \<Rightarrow> char" where
  "digitChar d = char_of (48 + d)"

function formatUint :: "nat \<Rightarrow> string" where
  "formatUint n =
     (if n < 10 then [digitChar n] else formatUint (n div 10) @ [digitChar (n mod 10)])"
  by pat_completeness auto
termination
  by (relation "measure id") auto

declare formatUint.simps [simp del]

subsection \<open>Communities\<close>

text \<open>
  A community member is a Go interface value; \<open>convertCommunity\<close> switches on its dynamic
  type. \<open>OtherCommunity\<close> stands for every dynamic type that no case names (a nil
  interface included).
\<close>

datatype community =
    UnionString string
  | UnionUint32 "32 word"
  | WellKnownCommunity E_BgpTypes_BGP_WELL_KNOWN_STD_COMMUNITY
  | OtherCommunity

text \<open>
  Modelled from the spec: \<open>uint32ToCommunityString\<close>, a helper of this package that is
  not among the sources. A numeric community is rendered as \<open>high16:low16\<close>, the upper
  and the lower 16 bits in decimal (as \<open>convertCommunityOC\<close> renders them in the other
  direction).
\<close>

definition uint32ToCommunityString :: "32 word \<Rightarrow> string" where
  "uint32ToCommunityString y =
     formatUint (unat (drop_bit 16 y)) @ '':'' @ formatUint (unat (y AND 0x0000ffff))"

text \<open>
  In the \<^verbatim>\<open>UnionUint32\<close> case the source calls \<open>uint32ToCommunityString\<close> as a
  statement: the value is dropped, the type switch ends, and control reaches the final
  \<^verbatim>\<open>return ""\<close>. An enumeration value outside the four named ones leaves the inner
  switch and reaches the same return.
\<close>

definition convertCommunity :: "community \<Rightarrow> string" where
  "convertCommunity community =
     (case community of
        UnionString c \<Rightarrow> c
      | UnionUint32 c \<Rightarrow> (let dropped = uint32ToCommunityString c in '''')
      | WellKnownCommunity c \<Rightarrow>
          (if c = BgpTypes_BGP_WELL_KNOWN_STD_COMMUNITY_NO_EXPORT then ''65535:65281''
           else if c = BgpTypes_BGP_WELL_KNOWN_STD_COMMUNITY_NO_ADVERTISE then ''65535:65282''
           else if c = BgpTypes_BGP_WELL_KNOWN_STD_COMMUNITY_NO_EXPORT_SUBCONFED
             then ''65535:65283''
           else if c = BgpTypes_BGP_WELL_KNOWN_STD_COMMUNITY_NOPEER then ''65535:65284''
           else '''')
      | OtherCommunity \<Rightarrow> '''')"

definition convertCommunityOC :: "32 word \<Rightarrow> community" where
  "convertCommunityOC y =
     UnionString (formatUint (unat (drop_bit 16 y)) @ '':'' @ formatUint (unat (y AND 0x0000ffff)))"

subsection \<open>Prefix sets\<close>

text \<open>
  Pointer fields are options (\<open>None\<close> is nil); the generated getters are nil-safe and
  return the empty string for an unset string leaf. A Go map is an association list: its
  lookups go through \<open>map_of\<close>, and a \<^verbatim>\<open>range\<close> over it visits the entries in the
  order of the list, which stands for whichever order the Go runtime picks. ygot never stores
  a nil pointer as a map value, so the values are the structs themselves.
\<close>

record oc_Prefix =
  oc_IpPrefix :: "string option"
  oc_MasklengthRange :: "string option"

definition GetIpPrefix :: "oc_Prefix \<Rightarrow> string" where
  "GetIpPrefix t = (case oc_IpPrefix t of None \<Rightarrow> '''' | Some v \<Rightarrow> v)"

definition GetMasklengthRange :: "oc_Prefix \<Rightarrow> string" where
  "GetMasklengthRange t = (case oc_MasklengthRange t of None \<Rightarrow> '''' | Some v \<Rightarrow> v)"

record oc_PrefixSet =
  oc_PrefixSet_Prefix :: "((string \<times> string) \<times> oc_Prefix) list"

record Prefix =
  IpPrefix :: string
  MasklengthRange :: string

record PrefixSet =
  PrefixSetName :: string
  PrefixList :: "Prefix list"

text \<open>
  Modelled from the spec: \<open>Mapkeys\<close>, the helper of \<^verbatim>\<open>internal/lemmingutil\<close> (not among
  the sources) that lists the keys of a map; the translator sorts them, so that emission is
  ordered by set name. Each key of the map occurs once.
\<close>

definition Mapkeys :: "('k \<times> 'v) list \<Rightarrow> 'k list" where
  "Mapkeys m = remdups (map fst m)"

text \<open>The inner loop of \<open>convertPrefixSets\<close>: one append per prefix of the set.\<close>

fun convertPrefixList :: "oc_Prefix list \<Rightarrow> Prefix list \<Rightarrow> Prefix list" where
  "convertPrefixList [] prefixList = prefixList"
| "convertPrefixList (prefix # rest) prefixList =
     (let r = GetMasklengthRange prefix;
          r = (if r = ''exact'' then '''' else r)
      in convertPrefixList rest
           (prefixList @ [\<lparr>IpPrefix = GetIpPrefix prefix, MasklengthRange = r\<rparr>]))"

text \<open>
  The outer loop, over the sorted names. Every name comes from the map's own keys, so the
  lookup finds its set; for a name without an entry the model appends nothing.
\<close>

fun convertPrefixSetsLoop ::
  "(string \<times> oc_PrefixSet) list \<Rightarrow> string list \<Rightarrow> PrefixSet list \<Rightarrow> PrefixSet list" where
  "convertPrefixSetsLoop ocprefixsets [] prefixSets = prefixSets"
| "convertPrefixSetsLoop ocprefixsets (prefixSetName # rest) prefixSets =
     (case map_of ocprefixsets prefixSetName of
        None \<Rightarrow> convertPrefixSetsLoop ocprefixsets rest prefixSets
      | Some ps \<Rightarrow>
          convertPrefixSetsLoop ocprefixsets rest
            (prefixSets @
               [\<lparr>PrefixSetName = prefixSetName,
                 PrefixList = convertPrefixList (map snd (oc_PrefixSet_Prefix ps)) []\<rparr>]))"

definition convertPrefixSets :: "(string \<times> oc_PrefixSet) list \<Rightarrow> PrefixSet list" where
  "convertPrefixSets ocprefixsets =
     convertPrefixSetsLoop ocprefixsets (sort (Mapkeys ocprefixsets)) []"

subsection \<open>Policy names\<close>

definition convertPolicyName :: "string \<Rightarrow> string \<Rightarrow> string" where
  "convertPolicyName neighAddr ocPolicyName = neighAddr @ ''|'' @ ocPolicyName"

subsection \<open>The engine's configuration set\<close>

text \<open>
  The fields of the engine's \<^verbatim>\<open>BgpConfigSet\<close> that this package writes, named by their
  path in the Go struct. All other fields keep their zero value throughout.
\<close>

record Neighbor =
  Config_PeerAs :: "32 word"
  Config_NeighborAddress :: string
  State_PeerAs :: "32 word"
  State_NeighborAddress :: string
  Transport_Config_LocalAddress :: string
  Transport_Config_RemotePort :: "16 word"

record ZebraConfig =
  Enabled :: bool
  Url :: string
  RedistributeRouteTypeList :: "string list"
  Version :: "8 word"
  NexthopTriggerEnable :: bool
  SoftwareName :: string

record BgpConfigSet =
  Global_Config_As :: "32 word"
  Global_Config_RouterId :: string
  Global_Config_Port :: "32 word"  \<comment> \<open>a Go \<^verbatim>\<open>int32\<close>: the bits, read as a signed value by \<open>sint\<close>\<close>
  Neighbors :: "Neighbor list"
  Zebra_Config :: ZebraConfig

text \<open>The zero value \<^verbatim>\<open>bgpconfig.BgpConfigSet{}\<close>.\<close>

definition emptyBgpConfigSet :: BgpConfigSet where
  "emptyBgpConfigSet =
     \<lparr>Global_Config_As = 0, Global_Config_RouterId = '''', Global_Config_Port = 0,
      Neighbors = [],
      Zebra_Config = \<lparr>Enabled = False, Url = '''', RedistributeRouteTypeList = [],
                      Version = 0, NexthopTriggerEnable = False, SoftwareName = ''''\<rparr>\<rparr>"

subsection \<open>Errors and log lines\<close>

text \<open>
  A MED action is a Go interface value as well: a string, a number, the enumeration
  (whose only named value is IGP), or any other dynamic type. A nil interface is \<open>None\<close>
  of \<open>med option\<close>.
\<close>

datatype med =
    MedString string
  | MedUint32 "32 word"
  | MedEnum int
  | MedOther

text \<open>
  The Go errors this package creates, one constructor per format string, with the values
  the message is formatted from. \<open>ExternalError\<close> is an error returned by a collaborator
  (the engine or the state store).
\<close>

datatype error =
    CommunitySetNotInIndexMap string
  | UnsupportedMED med
  | UnrecognizedMED med
  | FailedInitialConfig BgpConfigSet
  | FailedStop
  | FailedUpdate BgpConfigSet
  | ExternalError string

datatype path = BGPStatePath | RoutingPolicyStatePath

text \<open>
  The lines written at warning and error level, in order. Lines behind a verbosity guard
  (\<^verbatim>\<open>log.V(1)\<close>) are not part of the model.
\<close>

datatype logline =
    LogError error
  | LogMedNotSupported error
  | LogFailedToUpdateState path error
  | LogUnknownSessionState string

subsection \<open>Policy definitions\<close>

text \<open>
  The translator reads an OpenConfig statement only through chains of generated getters,
  which pass through nil pointers and return the zero value (or the schema default) of
  the leaf. Each field below is the value of one such chain; the comment gives the chain.
\<close>

record oc_SetCommunity =
  GetMethod :: E_SetCommunity_Method
  GetInline_GetCommunities :: "community list"
  GetReference_GetCommunitySetRef :: string
  GetOptions :: int

record oc_Statement =
  Statement_GetName :: string
  GetMatchPrefixSet_GetPrefixSet :: string
    \<comment> \<open>\<^verbatim>\<open>GetConditions().GetMatchPrefixSet().GetPrefixSet()\<close>\<close>
  GetMatchPrefixSet_GetMatchSetOptions :: E_RoutingPolicy_MatchSetOptionsRestrictedType
  GetMatchNeighborSet_GetNeighborSet :: string
    \<comment> \<open>\<^verbatim>\<open>GetConditions().GetMatchNeighborSet().GetNeighborSet()\<close>: the neighbor set the
        intended statement specifies; the translator has no read of it\<close>
  GetBgpConditions_GetCommunitySet :: string
  GetMatchAsPathSet_GetAsPathSet :: string
    \<comment> \<open>\<^verbatim>\<open>GetConditions().GetBgpConditions().GetMatchAsPathSet().GetAsPathSet()\<close>\<close>
  GetMatchAsPathSet_GetMatchSetOptions :: E_RoutingPolicy_MatchSetOptionsType
  GetActions_GetPolicyResult :: E_RoutingPolicy_PolicyResultType
  GetBgpActions_GetSetCommunity :: oc_SetCommunity
    \<comment> \<open>\<^verbatim>\<open>GetActions().GetBgpActions().GetSetCommunity()\<close>\<close>
  GetBgpActions_GetSetLocalPref :: "32 word"
  GetBgpActions_GetSetMed :: "med option"
  GetSetAsPathPrepend_GetRepeatN :: "8 word"
  GetSetAsPathPrepend_GetAsn :: "32 word"

record oc_PolicyDefinition =
  PolicyDefinition_GetName :: string
  Statement_Values :: "oc_Statement list"
    \<comment> \<open>\<^verbatim>\<open>policy.Statement.Values()\<close>: the statements of the ordered map, in order\<close>

record oc_CommunitySet =
  CommunityMember :: "community list"
  CommunitySet_GetMatchSetOptions :: E_RoutingPolicy_MatchSetOptionsType

record CommunitySet =
  CommunitySetName :: string
  CommunityList :: "string list"

record Statement =
  Name :: string
  MatchPrefixSet_PrefixSet :: string
  MatchPrefixSet_MatchSetOptions :: MatchSetOptionsRestrictedType
  MatchNeighborSet_NeighborSet :: string
  MatchCommunitySet_CommunitySet :: string
  MatchCommunitySet_MatchSetOptions :: MatchSetOptionsType
  MatchAsPathSet_AsPathSet :: string
  MatchAsPathSet_MatchSetOptions :: MatchSetOptionsType
  RouteDisposition :: RouteDisposition
  SetCommunity_CommunitiesList :: "string list"
  SetCommunity_Options :: string
  SetLocalPref :: "32 word"
  SetMed :: string
  SetAsPathPrepend_RepeatN :: "8 word"
  SetAsPathPrepend_As :: string

record PolicyDefinition =
  PolicyDefinition_Name :: string
  Statements :: "Statement list"

text \<open>
  Two library functions are parameters of the translation: the \<^verbatim>\<open>String\<close> method of the
  set-community options enumeration and \<^verbatim>\<open>strings.ToLower\<close>.
\<close>

record golib =
  Options_String :: "int \<Rightarrow> string"
  strings_ToLower :: "string \<Rightarrow> string"

text \<open>
  \<open>convertSetCommunities\<close> returns a Go pair (list, error). Indexing the converted sets out
  of range panics: the result is \<open>None\<close> then.
\<close>

definition convertSetCommunities ::
  "oc_SetCommunity \<Rightarrow> CommunitySet list \<Rightarrow> (string \<rightharpoonup> int) \<Rightarrow>
     (string list \<times> error option) option" where
  "convertSetCommunities setCommunity convertedCommSets commSetIndexMap =
     (if GetMethod setCommunity = SetCommunity_Method_INLINE then
        Some (map convertCommunity (GetInline_GetCommunities setCommunity), None)
      else if GetMethod setCommunity = SetCommunity_Method_REFERENCE
              \<and> GetReference_GetCommunitySetRef setCommunity \<noteq> '''' then
        (let commRef = GetReference_GetCommunitySetRef setCommunity in
         case commSetIndexMap commRef of
           None \<Rightarrow> Some ([], Some (CommunitySetNotInIndexMap commRef))
         | Some index \<Rightarrow>
             if 0 \<le> index \<and> nat index < length convertedCommSets
             then Some (CommunityList (convertedCommSets ! nat index), None)
             else None)
      else Some ([], None))"

definition convertMED :: "med option \<Rightarrow> string \<times> error option" where
  "convertMED med =
     (case med of
        None \<Rightarrow> ('''', None)
      | Some (MedString c) \<Rightarrow> (c, None)
      | Some (MedUint32 c) \<Rightarrow> (formatUint (unat c), None)
      | Some (MedEnum c) \<Rightarrow> ('''', Some (UnsupportedMED (MedEnum c)))
      | Some MedOther \<Rightarrow> ('''', Some (UnrecognizedMED MedOther)))"

text \<open>
  The body of the loop of \<open>convertPolicyDefinition\<close>: the statement that is appended and
  the lines logged, or \<open>None\<close> when \<open>convertSetCommunities\<close> panics. The match-set options
  of a community set that is not in \<open>occommset\<close> are read through a nil pointer: the getter
  returns the schema default, ANY.
\<close>

definition convertStatement ::
  "golib \<Rightarrow> string \<Rightarrow> string \<Rightarrow> (string \<times> oc_CommunitySet) list \<Rightarrow> CommunitySet list \<Rightarrow>
     (string \<rightharpoonup> int) \<Rightarrow> oc_Statement \<Rightarrow> (Statement \<times> logline list) option" where
  "convertStatement lib convertedPolicyName neighAddr occommset convertedCommSets commSetIndexMap
       statement =
     (case convertSetCommunities (GetBgpActions_GetSetCommunity statement) convertedCommSets
             commSetIndexMap of
        None \<Rightarrow> None
      | Some (setCommunitiesList, err) \<Rightarrow>
          (let log1 = (case err of None \<Rightarrow> [] | Some e \<Rightarrow> [LogError e]);
               (setmed, err) = convertMED (GetBgpActions_GetSetMed statement);
               log2 = (case err of None \<Rightarrow> [] | Some e \<Rightarrow> [LogMedNotSupported e])
           in Some
             (\<lparr>Name = convertedPolicyName @ '':'' @ Statement_GetName statement,
               MatchPrefixSet_PrefixSet = GetMatchPrefixSet_GetPrefixSet statement,
               MatchPrefixSet_MatchSetOptions =
                 convertMatchSetOptionsRestrictedType
                   (GetMatchPrefixSet_GetMatchSetOptions statement),
               MatchNeighborSet_NeighborSet = neighAddr,
               MatchCommunitySet_CommunitySet = GetBgpConditions_GetCommunitySet statement,
               MatchCommunitySet_MatchSetOptions =
                 convertMatchSetOptionsType
                   (case map_of occommset (GetBgpConditions_GetCommunitySet statement) of
                      None \<Rightarrow> RoutingPolicy_MatchSetOptionsType_ANY
                    | Some cs \<Rightarrow> CommunitySet_GetMatchSetOptions cs),
               MatchAsPathSet_AsPathSet = GetMatchAsPathSet_GetAsPathSet statement,
               MatchAsPathSet_MatchSetOptions =
                 convertMatchSetOptionsType (GetMatchAsPathSet_GetMatchSetOptions statement),
               RouteDisposition = convertRouteDisposition (GetActions_GetPolicyResult statement),
               SetCommunity_CommunitiesList = setCommunitiesList,
               SetCommunity_Options =
                 strings_ToLower lib
                   (Options_String lib (GetOptions (GetBgpActions_GetSetCommunity statement))),
               SetLocalPref = GetBgpActions_GetSetLocalPref statement,
               SetMed = setmed,
               SetAsPathPrepend_RepeatN = GetSetAsPathPrepend_GetRepeatN statement,
               SetAsPathPrepend_As = formatUint (unat (GetSetAsPathPrepend_GetAsn statement))\<rparr>,
              log1 @ log2)))"

text \<open>The loop: statements and log lines accumulate; a panic ends it.\<close>

fun convertStatements ::
  "golib \<Rightarrow> string \<Rightarrow> string \<Rightarrow> (string \<times> oc_CommunitySet) list \<Rightarrow> CommunitySet list \<Rightarrow>
     (string \<rightharpoonup> int) \<Rightarrow> oc_Statement list \<Rightarrow> Statement list \<times> logline list \<Rightarrow>
     (Statement list \<times> logline list) option" where
  "convertStatements lib convertedPolicyName neighAddr occommset convertedCommSets
       commSetIndexMap [] acc = Some acc"
| "convertStatements lib convertedPolicyName neighAddr occommset convertedCommSets
       commSetIndexMap (statement # rest) (statements, logs) =
     (case convertStatement lib convertedPolicyName neighAddr occommset convertedCommSets
             commSetIndexMap statement of
        None \<Rightarrow> None
      | Some (s, ls) \<Rightarrow>
          convertStatements lib convertedPolicyName neighAddr occommset convertedCommSets
            commSetIndexMap rest (statements @ [s], logs @ ls))"

definition convertPolicyDefinition ::
  "golib \<Rightarrow> oc_PolicyDefinition \<Rightarrow> string \<Rightarrow> (string \<times> oc_CommunitySet) list \<Rightarrow>
     CommunitySet list \<Rightarrow> (string \<rightharpoonup> int) \<Rightarrow> (PolicyDefinition \<times> logline list) option" where
  "convertPolicyDefinition lib policy neighAddr occommset convertedCommSets commSetIndexMap =
     (let convertedPolicyName = convertPolicyName neighAddr (PolicyDefinition_GetName policy) in
      case convertStatements lib convertedPolicyName neighAddr occommset convertedCommSets
             commSetIndexMap (Statement_Values policy) ([], []) of
        None \<Rightarrow> None
      | Some (statements, logs) \<Rightarrow>
          Some (\<lparr>PolicyDefinition_Name = convertedPolicyName, Statements = statements\<rparr>, logs))"

section \<open>The BGP task (reconciliation and applied state)\<close>

subsection \<open>The OpenConfig BGP tree\<close>

text \<open>
  The containers and leaves of the generated BGP struct that the task reads or writes.
  The RIB container is only written by the poller; its type is a parameter.
\<close>

type_synonym E_Bgp_Neighbor_SessionState = int


record oc_Global =
  As :: "32 word option"
  RouterId :: "string option"

record oc_Neighbor =
  NeighborAddress :: "string option"
  PeerAs :: "32 word option"
  NeighborPort :: "16 word option"
  SessionState :: E_Bgp_Neighbor_SessionState

record 'rib oc_Bgp =
  Bgp_Global :: "oc_Global option"
  Bgp_Neighbor :: "(string \<times> oc_Neighbor) list"
  Bgp_Rib :: "'rib option"

text \<open>The zero value \<^verbatim>\<open>oc.NetworkInstance_Protocol_Bgp{}\<close>.\<close>

definition emptyBgp :: "'rib oc_Bgp" where
  "emptyBgp = \<lparr>Bgp_Global = None, Bgp_Neighbor = [], Bgp_Rib = None\<rparr>"

text \<open>
  Modelled from the spec: the accessors that ygot generates for these structs (the
  generated package is not among the sources). A getter returns the leaf, or its zero value
  (for the neighbor port the schema default, 179) when the leaf or the struct is nil;
  \<open>GetOrCreateGlobal\<close> returns the global container, a fresh empty one when it is nil;
  \<open>GetOrCreateNeighbor\<close> looks up the neighbor record of an address, or creates it
  holding only its key.
\<close>

definition GetAs :: "oc_Global \<Rightarrow> 32 word" where
  "GetAs t = (case As t of None \<Rightarrow> 0 | Some v \<Rightarrow> v)"

definition GetRouterId :: "oc_Global \<Rightarrow> string" where
  "GetRouterId t = (case RouterId t of None \<Rightarrow> '''' | Some v \<Rightarrow> v)"

definition GetPeerAs :: "oc_Neighbor \<Rightarrow> 32 word" where
  "GetPeerAs t = (case PeerAs t of None \<Rightarrow> 0 | Some v \<Rightarrow> v)"

definition GetNeighborPort :: "oc_Neighbor \<Rightarrow> 16 word" where
  "GetNeighborPort t = (case NeighborPort t of None \<Rightarrow> 179 | Some v \<Rightarrow> v)"

definition GetOrCreateGlobal :: "'rib oc_Bgp \<Rightarrow> oc_Global" where
  "GetOrCreateGlobal t =
     (case Bgp_Global t of None \<Rightarrow> \<lparr>As = None, RouterId = None\<rparr> | Some g \<Rightarrow> g)"



text \<open>
  The intended configuration arrives as a root; reconciliation reads the BGP container of
  the BGP protocol of the default network instance, \<open>None\<close> when a container on the way to
  it is nil (\<^verbatim>\<open>GetOrCreate\<close> then yields an empty one).
\<close>

record 'rib oc_Root =
  DefaultInstance_Bgp :: "'rib oc_Bgp option"

definition GetOrCreateBgp :: "'rib oc_Root \<Rightarrow> 'rib oc_Bgp" where
  "GetOrCreateBgp root = (case DefaultInstance_Bgp root of None \<Rightarrow> emptyBgp | Some b \<Rightarrow> b)"

subsection \<open>Translating the intended BGP configuration\<close>

text \<open>
  The address parser of the Go standard library is a parameter: \<open>ParseAddr\<close> (\<open>None\<close>
  when it returns an error), \<open>IsLoopback\<close> and \<open>Addr_String\<close>, the \<^verbatim>\<open>String\<close> method,
  which renders an address in its canonical text form.
\<close>

record 'a netip =
  ParseAddr :: "string \<Rightarrow> 'a option"
  IsLoopback :: "'a \<Rightarrow> bool"
  Addr_String :: "'a \<Rightarrow> string"

text \<open>The highest protocol version of the engine's zebra client.\<close>

definition zebra_MaxZapiVer :: "8 word" where
  "zebra_MaxZapiVer = 6"

definition intendedToGoBGP ::
  "'a netip \<Rightarrow> 'rib oc_Bgp \<Rightarrow> string \<Rightarrow> 16 word \<Rightarrow> BgpConfigSet" where
  "intendedToGoBGP lib bgpoc zapiURL' listenPort' =
     (let global = GetOrCreateGlobal bgpoc;
          localAddress =
            (case ParseAddr lib (GetRouterId global) of
               None \<Rightarrow> ''''
             | Some localAddr \<Rightarrow>
                 if IsLoopback lib localAddr then Addr_String lib localAddr else '''')
      in \<lparr>Global_Config_As = GetAs global,
          Global_Config_RouterId = GetRouterId global,
          Global_Config_Port = ucast listenPort',
          Neighbors =
            map (\<lambda>(neighAddr, neigh).
                   \<lparr>Config_PeerAs = GetPeerAs neigh,
                    Config_NeighborAddress = neighAddr,
                    State_PeerAs = GetPeerAs neigh,
                    State_NeighborAddress = neighAddr,
                    Transport_Config_LocalAddress = localAddress,
                    Transport_Config_RemotePort = GetNeighborPort neigh\<rparr>)
                (Bgp_Neighbor bgpoc),
          Zebra_Config =
            \<lparr>Enabled = True, Url = zapiURL', RedistributeRouteTypeList = [],
             Version = zebra_MaxZapiVer, NexthopTriggerEnable = False,
             SoftwareName = ''frr8.2''\<rparr>\<rparr>)"

subsection \<open>The task\<close>

text \<open>
  \<open>bgpServer\<close> is the state of the engine and \<open>yclient\<close> the state of the external store
  behind the client. In Go, \<open>appliedBGP\<close> and \<open>appliedRoutingPolicy\<close> are pointers into the
  one applied-state root; \<open>appliedState_rest\<close> is everything else under that root. The task
  also carries the lines it has logged. \<open>currentConfig\<close> is a pointer: \<open>None\<close> is nil.
\<close>

record ('e, 'w, 'rib, 'rp, 'x) bgpDeclTask =
  zapiURL :: string
  bgpServer :: 'e
  currentConfig :: "BgpConfigSet option"
  listenPort :: "16 word"
  bgpStarted :: bool
  yclient :: 'w
  appliedBGP :: "'rib oc_Bgp"
  appliedRoutingPolicy :: 'rp
  appliedState_rest :: 'x
  logs :: "logline list"

definition gracefulRestart :: bool where
  "gracefulRestart = False"

text \<open>
  The collaborators are parameters. \<open>InitialConfig\<close> and \<open>UpdateConfig\<close> belong to this
  package but are not among the sources; they receive the pointer to the applied BGP tree and
  the engine, and return a Go pair (configuration pointer, error) together with the tree and
  the engine as they leave them. \<open>StopBgp\<close> is the engine's administrative stop.
  \<open>Bgp_PopulateDefaults\<close> is the generated method that fills in the schema defaults.
\<close>

record ('e, 'rib) engine =
  InitialConfig ::
    "'rib oc_Bgp \<Rightarrow> 'e \<Rightarrow> BgpConfigSet \<Rightarrow> bool \<Rightarrow>
       (BgpConfigSet option \<times> error option) \<times> 'rib oc_Bgp \<times> 'e"
  UpdateConfig ::
    "'rib oc_Bgp \<Rightarrow> 'e \<Rightarrow> BgpConfigSet option \<Rightarrow> BgpConfigSet \<Rightarrow>
       (BgpConfigSet option \<times> error option) \<times> 'rib oc_Bgp \<times> 'e"
  StopBgp :: "'e \<Rightarrow> error option \<times> 'e"
  Bgp_PopulateDefaults :: "'rib oc_Bgp \<Rightarrow> 'rib oc_Bgp"

text \<open>
  The store's replace operation is a parameter too: given a path and a sub-tree it returns an
  error or not, and the store as it leaves it.
\<close>

datatype ('b, 'rp) subtree = BgpTree 'b | RoutingPolicyTree 'rp

type_synonym ('w, 'rib, 'rp) replace =
  "path \<Rightarrow> ('rib oc_Bgp, 'rp) subtree \<Rightarrow> 'w \<Rightarrow> error option \<times> 'w"

definition updateAppliedStateHelper ::
  "('w, 'rib, 'rp) replace \<Rightarrow> path \<Rightarrow> ('rib oc_Bgp, 'rp) subtree \<Rightarrow>
     ('e, 'w, 'rib, 'rp, 'x) bgpDeclTask \<Rightarrow> ('e, 'w, 'rib, 'rp, 'x) bgpDeclTask" where
  "updateAppliedStateHelper Replace p appliedState t =
     (case Replace p appliedState (yclient t) of
        (None, w) \<Rightarrow> t\<lparr>yclient := w\<rparr>
      | (Some err, w) \<Rightarrow> t\<lparr>yclient := w, logs := logs t @ [LogFailedToUpdateState p err]\<rparr>)"

text \<open>
  The mutator is a closure over the task: it takes the task and returns its error, if any,
  and the task as it leaves it. The mutex makes the call atomic; the model is of one call.
\<close>

definition updateAppliedState ::
  "('w, 'rib, 'rp) replace \<Rightarrow>
     (('e, 'w, 'rib, 'rp, 'x) bgpDeclTask \<Rightarrow> error option \<times> ('e, 'w, 'rib, 'rp, 'x) bgpDeclTask) \<Rightarrow>
     ('e, 'w, 'rib, 'rp, 'x) bgpDeclTask \<Rightarrow> error option \<times> ('e, 'w, 'rib, 'rp, 'x) bgpDeclTask" where
  "updateAppliedState Replace f t =
     (case f t of
        (Some err, t1) \<Rightarrow> (Some err, t1)
      | (None, t1) \<Rightarrow>
          (let t2 = updateAppliedStateHelper Replace BGPStatePath (BgpTree (appliedBGP t1)) t1;
               t3 = updateAppliedStateHelper Replace RoutingPolicyStatePath
                      (RoutingPolicyTree (appliedRoutingPolicy t2)) t2
           in (None, t3)))"

subsection \<open>Reconciliation\<close>

definition bgpShouldStart :: "'rib oc_Root \<Rightarrow> bool" where
  "bgpShouldStart intended =
     (let intendedGlobal = GetOrCreateGlobal (GetOrCreateBgp intended)
      in As intendedGlobal \<noteq> None \<and> RouterId intendedGlobal \<noteq> None)"

text \<open>
  In the start and the update case the Go assignment
  \<^verbatim>\<open>t.currentConfig, err = ...\<close> stores the first result before \<^verbatim>\<open>err\<close> is tested.
\<close>

definition reconcile ::
  "('e, 'rib) engine \<Rightarrow> 'a netip \<Rightarrow> 'rib oc_Root \<Rightarrow> ('e, 'w, 'rib, 'rp, 'x) bgpDeclTask \<Rightarrow>
     error option \<times> ('e, 'w, 'rib, 'rp, 'x) bgpDeclTask" where
  "reconcile eng lib intended t =
     (let intendedBGP = GetOrCreateBgp intended;
          newConfig = intendedToGoBGP lib intendedBGP (zapiURL t) (listenPort t)
      in
      if bgpShouldStart intended \<and> \<not> bgpStarted t then
        (case InitialConfig eng (appliedBGP t) (bgpServer t) newConfig gracefulRestart of
           ((cfg, err), applied, srv) \<Rightarrow>
             (let t1 = t\<lparr>currentConfig := cfg, appliedBGP := applied, bgpServer := srv\<rparr>
              in case err of
                   Some e \<Rightarrow> (Some (FailedInitialConfig newConfig), t1)
                 | None \<Rightarrow> (None, t1\<lparr>bgpStarted := True\<rparr>)))
      else if \<not> bgpShouldStart intended \<and> bgpStarted t then
        (case StopBgp eng (bgpServer t) of
           (Some e, srv) \<Rightarrow> (Some FailedStop, t\<lparr>bgpServer := srv\<rparr>)
         | (None, srv) \<Rightarrow>
             (None, t\<lparr>bgpServer := srv, bgpStarted := False,
                      currentConfig := Some emptyBgpConfigSet,
                      appliedBGP := Bgp_PopulateDefaults eng emptyBgp\<rparr>))
      else if bgpStarted t then
        (case UpdateConfig eng (appliedBGP t) (bgpServer t) (currentConfig t) newConfig of
           ((cfg, err), applied, srv) \<Rightarrow>
             (let t1 = t\<lparr>currentConfig := cfg, appliedBGP := applied, bgpServer := srv\<rparr>
              in case err of
                   Some e \<Rightarrow> (Some (FailedUpdate newConfig), t1)
                 | None \<Rightarrow> (None, t1)))
      else (None, t))"

subsection \<open>Peer state events\<close>








text \<open>The callback of the configuration watch: one reconciliation pass, then the publish.\<close>

definition watchCallback ::
  "('w, 'rib, 'rp) replace \<Rightarrow> ('e, 'rib) engine \<Rightarrow> 'a netip \<Rightarrow> 'rib oc_Root \<Rightarrow>
     ('e, 'w, 'rib, 'rp, 'x) bgpDeclTask \<Rightarrow> ('e, 'w, 'rib, 'rp, 'x) bgpDeclTask" where
  "watchCallback Replace eng lib rootVal t =
     snd (updateAppliedState Replace (reconcile eng lib rootVal) t)"

section \<open>Example inputs\<close>

text \<open>
  Concrete inputs at which the properties below are evaluated: stand-ins for the two library
  functions of the translation, a statement that sets nothing but its name, an index map
  without entries, and the prefix set of the prefix-set integration test.
\<close>

definition exampleGolib :: golib where
  "exampleGolib = \<lparr>Options_String = (\<lambda>v. ''''), strings_ToLower = (\<lambda>s. s)\<rparr>"

definition namedStatement :: "string \<Rightarrow> oc_Statement" where
  "namedStatement n =
     \<lparr>Statement_GetName = n,
      GetMatchPrefixSet_GetPrefixSet = '''',
      GetMatchPrefixSet_GetMatchSetOptions = 0,
      GetMatchNeighborSet_GetNeighborSet = '''',
      GetBgpConditions_GetCommunitySet = '''',
      GetMatchAsPathSet_GetAsPathSet = '''',
      GetMatchAsPathSet_GetMatchSetOptions = 0,
      GetActions_GetPolicyResult = 0,
      GetBgpActions_GetSetCommunity =
        \<lparr>GetMethod = 0, GetInline_GetCommunities = [], GetReference_GetCommunitySetRef = '''',
         GetOptions = 0\<rparr>,
      GetBgpActions_GetSetLocalPref = 0,
      GetBgpActions_GetSetMed = None,
      GetSetAsPathPrepend_GetRepeatN = 0,
      GetSetAsPathPrepend_GetAsn = 0\<rparr>"

definition noCommunitySetIndex :: "string \<rightharpoonup> int" where
  "noCommunitySetIndex = Map.empty"

definition examplePrefixSets :: "(string \<times> oc_PrefixSet) list" where
  "examplePrefixSets =
     [(''reject-10.33.0.0/16'',
       \<lparr>oc_PrefixSet_Prefix =
          [((''10.33.0.0/16'', ''exact''),
            \<lparr>oc_IpPrefix = Some ''10.33.0.0/16'', oc_MasklengthRange = Some ''exact''\<rparr>),
           ((''10.34.0.0/16'', ''16..23''),
            \<lparr>oc_IpPrefix = Some ''10.34.0.0/16'', oc_MasklengthRange = Some ''16..23''\<rparr>)]\<rparr>)]"

definition examplePolicy :: "string \<Rightarrow> string \<Rightarrow> oc_PolicyDefinition" where
  "examplePolicy policyName statementName =
     \<lparr>PolicyDefinition_GetName = policyName, Statement_Values = [namedStatement statementName]\<rparr>"

text \<open>The names of the statements of a translated policy; \<open>None\<close> when the translation panics.\<close>

definition statementNames :: "(PolicyDefinition \<times> logline list) option \<Rightarrow> string list option" where
  "statementNames r = map_option (\<lambda>(pd, lg). map Name (Statements pd)) r"

text \<open>
  The index map is consistent with the converted sets when every index it holds is within
  their bounds, as it is when both come from the same conversion of the community sets.
\<close>

definition indexMapInRange :: "(string \<rightharpoonup> int) \<Rightarrow> CommunitySet list \<Rightarrow> bool" where
  "indexMapInRange im ccs = (\<forall>k i. im k = Some i \<longrightarrow> 0 \<le> i \<and> nat i < length ccs)"

text \<open>
  A stand-in for the address parser, with the values of the Go library on three literals:
  1.1.1.1 and 127.0.0.1 parse to themselves, the second a loopback address, and the
  uncompressed IPv6 loopback \<open>0:0:0:0:0:0:0:1\<close> parses to the address whose text form is
  \<open>::1\<close>. An address is represented by its text form; every other input is rejected.
\<close>

definition exampleNetip :: "string netip" where
  "exampleNetip =
     \<lparr>ParseAddr = (\<lambda>s. if s = ''1.1.1.1'' then Some ''1.1.1.1''
                       else if s = ''127.0.0.1'' then Some ''127.0.0.1''
                       else if s = ''0:0:0:0:0:0:0:1'' then Some ''::1''
                       else None),
      IsLoopback = (\<lambda>a. a = ''127.0.0.1'' \<or> a = ''::1''),
      Addr_String = (\<lambda>a. a)\<rparr>"

text \<open>An intended BGP tree with AS 65001, the given router-id and one neighbor.\<close>

definition exampleIntendedBgp :: "string \<Rightarrow> string oc_Bgp" where
  "exampleIntendedBgp routerId =
     \<lparr>Bgp_Global = Some \<lparr>As = Some 65001, RouterId = Some routerId\<rparr>,
      Bgp_Neighbor =
        [(''192.0.2.2'',
          \<lparr>NeighborAddress = Some ''192.0.2.2'', PeerAs = Some 65002, NeighborPort = None,
           SessionState = 0\<rparr>)],
      Bgp_Rib = None\<rparr>"

definition exampleIntended :: "string \<Rightarrow> string oc_Root" where
  "exampleIntended routerId = \<lparr>DefaultInstance_Bgp = Some (exampleIntendedBgp routerId)\<rparr>"

text \<open>An intended root without any BGP configuration.\<close>

definition emptyIntended :: "string oc_Root" where
  "emptyIntended = \<lparr>DefaultInstance_Bgp = None\<rparr>"

text \<open>
  A store that accepts every replace and records it: its state is the list of the requests
  it has received. The RIB, the routing-policy tree and the rest of the root are strings in
  the examples.
\<close>

type_synonym exampleStore = "(path \<times> (string oc_Bgp, string) subtree) list"

definition recordingReplace :: "(exampleStore, string, string) replace" where
  "recordingReplace p v w = (None, w @ [(p, v)])"

text \<open>
  An engine that rejects every start and every update, returning the error with a nil
  configuration and leaving the applied tree alone, and that accepts a stop. Its state counts
  the calls it has received. Populating the defaults creates the global container.
\<close>

definition rejectingEngine :: "(nat, string) engine" where
  "rejectingEngine =
     \<lparr>InitialConfig =
        (\<lambda>applied srv newConfig graceful.
           ((None, Some (ExternalError ''failed to start'')), applied, Suc srv)),
      UpdateConfig =
        (\<lambda>applied srv c newConfig.
           ((None, Some (ExternalError ''failed to update'')), applied, Suc srv)),
      StopBgp = (\<lambda>srv. (None, Suc srv)),
      Bgp_PopulateDefaults = (\<lambda>b. b\<lparr>Bgp_Global := Some \<lparr>As = None, RouterId = None\<rparr>\<rparr>)\<rparr>"

text \<open>
  The task as \<open>startGoBGPFuncDecl\<close> leaves it (not started, an empty configuration as the
  snapshot), and a started task whose snapshot is the configuration of the last successful
  pass and whose applied tree holds one neighbor.
\<close>

definition exampleTask :: "(nat, exampleStore, string, string, string) bgpDeclTask" where
  "exampleTask =
     \<lparr>zapiURL = ''unix:/var/run/zserv.api'', bgpServer = 0,
      currentConfig = Some emptyBgpConfigSet, listenPort = 179, bgpStarted = False,
      yclient = [], appliedBGP = emptyBgp, appliedRoutingPolicy = ''routing-policy'',
      appliedState_rest = ''rest'', logs = []\<rparr>"

definition lastGoodConfig :: BgpConfigSet where
  "lastGoodConfig =
     intendedToGoBGP exampleNetip (exampleIntendedBgp ''1.1.1.1'') ''unix:/var/run/zserv.api'' 179"

definition startedTask :: "(nat, exampleStore, string, string, string) bgpDeclTask" where
  "startedTask =
     exampleTask\<lparr>bgpStarted := True, currentConfig := Some lastGoodConfig,
                 appliedBGP := exampleIntendedBgp ''1.1.1.1''\<rparr>"

text \<open>Two mutators: one that fails after changing the applied tree, one that succeeds.\<close>

definition failingMutator ::
  "(nat, exampleStore, string, string, string) bgpDeclTask \<Rightarrow>
     error option \<times> (nat, exampleStore, string, string, string) bgpDeclTask" where
  "failingMutator t =
     (Some (ExternalError ''mutation failed''), t\<lparr>appliedBGP := exampleIntendedBgp ''1.1.1.1''\<rparr>)"

definition succeedingMutator ::
  "(nat, exampleStore, string, string, string) bgpDeclTask \<Rightarrow>
     error option \<times> (nat, exampleStore, string, string, string) bgpDeclTask" where
  "succeedingMutator t = (None, t\<lparr>appliedBGP := exampleIntendedBgp ''1.1.1.1''\<rparr>)"



section \<open>Properties of the policy translation\<close>

subsection \<open>Auxiliary facts about the loops\<close>

lemma convertPrefixList_append:
  "convertPrefixList ps acc =
     acc @ map (\<lambda>p. \<lparr>IpPrefix = GetIpPrefix p,
                      MasklengthRange = (if GetMasklengthRange p = ''exact'' then '''' else GetMasklengthRange p)\<rparr>) ps"
  by (induction ps arbitrary: acc) (simp_all add: Let_def)

lemma convertPrefixSetsLoop_sets:
  "set (convertPrefixSetsLoop m names acc) =
     set acc \<union> {\<lparr>PrefixSetName = n, PrefixList = convertPrefixList (map snd (oc_PrefixSet_Prefix ps)) []\<rparr> | n ps.
                   n \<in> set names \<and> map_of m n = Some ps}"
  by (induction names arbitrary: acc) (auto split: option.splits)

lemma convertPrefixSetsLoop_names:
  "map PrefixSetName (convertPrefixSetsLoop m names acc) =
     map PrefixSetName acc @ filter (\<lambda>n. map_of m n \<noteq> None) names"
  by (induction names arbitrary: acc) (auto split: option.splits)

lemma convertStatements_acc:
  "convertStatements lib cpn na occ ccs im sts (acc, lg) = Some (res, lg2) \<Longrightarrow>
     \<exists>new. res = acc @ new \<and>
       list_all2 (\<lambda>st s. \<exists>ls. convertStatement lib cpn na occ ccs im st = Some (s, ls)) sts new"
proof (induction sts arbitrary: acc lg)
  case Nil
  then show ?case by simp
next
  case (Cons st sts)
  then show ?case
    by (fastforce split: option.splits prod.splits)
qed

lemma convertStatement_fields:
  "convertStatement lib cpn na occ ccs im st = Some (s, ls) \<Longrightarrow>
     MatchNeighborSet_NeighborSet s = na \<and> Name s = cpn @ '':'' @ Statement_GetName st"
  by (auto simp: convertStatement_def Let_def split: option.splits prod.splits)

lemma convertPolicyDefinition_statements:
  assumes "convertPolicyDefinition lib policy na occ ccs im = Some (pd, lg)"
  shows "PolicyDefinition_Name pd = convertPolicyName na (PolicyDefinition_GetName policy)"
    and "list_all2 (\<lambda>st s. MatchNeighborSet_NeighborSet s = na \<and>
             Name s = convertPolicyName na (PolicyDefinition_GetName policy) @ '':'' @ Statement_GetName st)
           (Statement_Values policy) (Statements pd)"
proof -
  let ?cpn = "convertPolicyName na (PolicyDefinition_GetName policy)"
  from assms obtain sts where
    loop: "convertStatements lib ?cpn na occ ccs im (Statement_Values policy) ([], []) = Some (sts, lg)"
    and pd: "pd = \<lparr>PolicyDefinition_Name = ?cpn, Statements = sts\<rparr>"
    by (auto simp: convertPolicyDefinition_def Let_def split: option.splits prod.splits)
  from pd show "PolicyDefinition_Name pd = ?cpn" by simp
  from convertStatements_acc [OF loop]
  have "list_all2 (\<lambda>st s. \<exists>ls. convertStatement lib ?cpn na occ ccs im st = Some (s, ls))
          (Statement_Values policy) sts"
    by simp
  then have "list_all2 (\<lambda>st s. MatchNeighborSet_NeighborSet s = na \<and>
                Name s = ?cpn @ '':'' @ Statement_GetName st) (Statement_Values policy) sts"
    by (rule list_all2_mono) (auto dest: convertStatement_fields)
  with pd show "list_all2 (\<lambda>st s. MatchNeighborSet_NeighborSet s = na \<and>
             Name s = ?cpn @ '':'' @ Statement_GetName st)
           (Statement_Values policy) (Statements pd)"
    by simp
qed

lemma takeWhile_delimiter: "d \<notin> set a \<Longrightarrow> takeWhile (\<lambda>c. c \<noteq> d) (a @ d # r) = a"
  by (induction a) auto

lemma dropWhile_delimiter: "d \<notin> set a \<Longrightarrow> dropWhile (\<lambda>c. c \<noteq> d) (a @ d # r) = d # r"
  by (induction a) auto

lemma split_at_delimiter:
  assumes "d \<notin> set a1" "d \<notin> set a2" "a1 @ d # r1 = a2 @ d # r2"
  shows "a1 = a2 \<and> r1 = r2"
proof -
  have "takeWhile (\<lambda>c. c \<noteq> d) (a1 @ d # r1) = a1" "takeWhile (\<lambda>c. c \<noteq> d) (a2 @ d # r2) = a2"
    using assms(1,2) by (simp_all add: takeWhile_delimiter)
  with assms(3) have "a1 = a2" by metis
  with assms(3) show ?thesis by simp
qed

subsection \<open>Default policies\<close>

text \<open>
  C5. Every default-policy value other than ACCEPT_ROUTE (the unset value included, and so
  every value that is neither ACCEPT_ROUTE nor REJECT_ROUTE) is translated to REJECT_ROUTE
  and never to ACCEPT_ROUTE: by \<open>convertDefaultPolicy\<close> from the OpenConfig value to the
  engine's default policy, by \<open>defaultPolicyToRouteDisp\<close> from the engine's default policy
  to a route disposition, and by the two in sequence.
\<close>

theorem default_policy_rejects_by_default:
  "(ocpolicy \<noteq> RoutingPolicy_DefaultPolicyType_ACCEPT_ROUTE \<longrightarrow>
      convertDefaultPolicy ocpolicy = DEFAULT_POLICY_TYPE_REJECT_ROUTE \<and>
      convertDefaultPolicy ocpolicy \<noteq> DEFAULT_POLICY_TYPE_ACCEPT_ROUTE) \<and>
   (gobgpdefaultpolicy \<noteq> DEFAULT_POLICY_TYPE_ACCEPT_ROUTE \<longrightarrow>
      defaultPolicyToRouteDisp gobgpdefaultpolicy = ROUTE_DISPOSITION_REJECT_ROUTE \<and>
      defaultPolicyToRouteDisp gobgpdefaultpolicy \<noteq> ROUTE_DISPOSITION_ACCEPT_ROUTE) \<and>
   (ocpolicy \<noteq> RoutingPolicy_DefaultPolicyType_ACCEPT_ROUTE \<longrightarrow>
      defaultPolicyToRouteDisp (convertDefaultPolicy ocpolicy) = ROUTE_DISPOSITION_REJECT_ROUTE)"
  by (simp add: convertDefaultPolicy_def defaultPolicyToRouteDisp_def
      DEFAULT_POLICY_TYPE_REJECT_ROUTE_def DEFAULT_POLICY_TYPE_ACCEPT_ROUTE_def
      ROUTE_DISPOSITION_REJECT_ROUTE_def ROUTE_DISPOSITION_ACCEPT_ROUTE_def)

theorem default_policy_rejects_by_default_witness:
  "RoutingPolicy_DefaultPolicyType_UNSET \<noteq> RoutingPolicy_DefaultPolicyType_ACCEPT_ROUTE \<and>
   convertDefaultPolicy RoutingPolicy_DefaultPolicyType_UNSET = DEFAULT_POLICY_TYPE_REJECT_ROUTE \<and>
   ''unknown'' \<noteq> DEFAULT_POLICY_TYPE_ACCEPT_ROUTE \<and>
   defaultPolicyToRouteDisp ''unknown'' = ROUTE_DISPOSITION_REJECT_ROUTE \<and>
   defaultPolicyToRouteDisp (convertDefaultPolicy RoutingPolicy_DefaultPolicyType_UNSET) =
     ROUTE_DISPOSITION_REJECT_ROUTE"
  using default_policy_rejects_by_default
    [of RoutingPolicy_DefaultPolicyType_UNSET "''unknown''"]
  by (simp add: RoutingPolicy_DefaultPolicyType_UNSET_def
      RoutingPolicy_DefaultPolicyType_ACCEPT_ROUTE_def DEFAULT_POLICY_TYPE_ACCEPT_ROUTE_def
      RoutingPolicy_DefaultPolicyType_REJECT_ROUTE_def convertDefaultPolicy_def)

subsection \<open>Communities\<close>

lemma convertCommunity_well_known:
  "convertCommunity (WellKnownCommunity BgpTypes_BGP_WELL_KNOWN_STD_COMMUNITY_NO_EXPORT) = ''65535:65281''"
  "convertCommunity (WellKnownCommunity BgpTypes_BGP_WELL_KNOWN_STD_COMMUNITY_NO_ADVERTISE) = ''65535:65282''"
  "convertCommunity (WellKnownCommunity BgpTypes_BGP_WELL_KNOWN_STD_COMMUNITY_NO_EXPORT_SUBCONFED) = ''65535:65283''"
  "convertCommunity (WellKnownCommunity BgpTypes_BGP_WELL_KNOWN_STD_COMMUNITY_NOPEER) = ''65535:65284''"
  by (simp_all add: convertCommunity_def BgpTypes_BGP_WELL_KNOWN_STD_COMMUNITY_NO_EXPORT_def
      BgpTypes_BGP_WELL_KNOWN_STD_COMMUNITY_NO_ADVERTISE_def
      BgpTypes_BGP_WELL_KNOWN_STD_COMMUNITY_NO_EXPORT_SUBCONFED_def
      BgpTypes_BGP_WELL_KNOWN_STD_COMMUNITY_NOPEER_def)

lemma convertCommunity_numeric_empty: "convertCommunity (UnionUint32 c) = ''''"
  by (simp add: convertCommunity_def)

lemma high16_low16_example: "uint32ToCommunityString 65538 = ''1:2''"
  by code_simp

text \<open>
  C2. The four well-known values translate to their literals (\<open>convertCommunity_well_known\<close>),
  but a numeric community does not translate to \<open>high16:low16\<close>: the value 65538, whose
  rendering is \<open>1:2\<close>, is translated to the empty string, as every numeric community is
  (\<open>convertCommunity_numeric_empty\<close>).
\<close>

theorem convertCommunity_numeric_dropped:
  "convertCommunity (UnionUint32 65538) = '''' \<and> uint32ToCommunityString 65538 = ''1:2''"
  by (simp add: convertCommunity_def high16_low16_example)

subsection \<open>Prefix sets\<close>

text \<open>
  C6. Every translated prefix set is the translation of the set of that name, prefix by
  prefix: the address prefix is passed through, the mask-length range \<open>exact\<close> becomes the
  empty string and every other range is passed through. Every set of the map is translated,
  in the order of the names. The set of the integration test, 10.33.0.0/16 exact and
  10.34.0.0/16 with range 16..23, translates to (10.33.0.0/16, empty) and
  (10.34.0.0/16, 16..23).
\<close>

theorem convertPrefixSets_masklength_range:
  "(\<forall>ps \<in> set (convertPrefixSets ocprefixsets).
      \<exists>ocps. map_of ocprefixsets (PrefixSetName ps) = Some ocps \<and>
        PrefixList ps =
          map (\<lambda>p. \<lparr>IpPrefix = GetIpPrefix p,
                     MasklengthRange =
                       (if GetMasklengthRange p = ''exact'' then '''' else GetMasklengthRange p)\<rparr>)
            (map snd (oc_PrefixSet_Prefix ocps))) \<and>
   map PrefixSetName (convertPrefixSets ocprefixsets) = sort (Mapkeys ocprefixsets) \<and>
   convertPrefixSets examplePrefixSets =
     [\<lparr>PrefixSetName = ''reject-10.33.0.0/16'',
       PrefixList = [\<lparr>IpPrefix = ''10.33.0.0/16'', MasklengthRange = ''''\<rparr>,
                     \<lparr>IpPrefix = ''10.34.0.0/16'', MasklengthRange = ''16..23''\<rparr>]\<rparr>]"
proof (intro conjI ballI)
  fix ps
  assume "ps \<in> set (convertPrefixSets ocprefixsets)"
  then obtain n ocps where "map_of ocprefixsets n = Some ocps"
    and "ps = \<lparr>PrefixSetName = n, PrefixList = convertPrefixList (map snd (oc_PrefixSet_Prefix ocps)) []\<rparr>"
    by (auto simp: convertPrefixSets_def convertPrefixSetsLoop_sets)
  then show "\<exists>ocps. map_of ocprefixsets (PrefixSetName ps) = Some ocps \<and>
        PrefixList ps =
          map (\<lambda>p. \<lparr>IpPrefix = GetIpPrefix p,
                     MasklengthRange =
                       (if GetMasklengthRange p = ''exact'' then '''' else GetMasklengthRange p)\<rparr>)
            (map snd (oc_PrefixSet_Prefix ocps))"
    by (simp add: convertPrefixList_append)
next
  have "\<forall>n \<in> set (sort (Mapkeys ocprefixsets)). map_of ocprefixsets n \<noteq> None"
    by (simp add: Mapkeys_def map_of_eq_None_iff)
  then have "filter (\<lambda>n. map_of ocprefixsets n \<noteq> None) (sort (Mapkeys ocprefixsets)) =
      sort (Mapkeys ocprefixsets)"
    by (simp only: filter_True)
  then show "map PrefixSetName (convertPrefixSets ocprefixsets) = sort (Mapkeys ocprefixsets)"
    by (simp add: convertPrefixSets_def convertPrefixSetsLoop_names)
next
  show "convertPrefixSets examplePrefixSets =
     [\<lparr>PrefixSetName = ''reject-10.33.0.0/16'',
       PrefixList = [\<lparr>IpPrefix = ''10.33.0.0/16'', MasklengthRange = ''''\<rparr>,
                     \<lparr>IpPrefix = ''10.34.0.0/16'', MasklengthRange = ''16..23''\<rparr>]\<rparr>]"
    by (simp add: convertPrefixSets_def examplePrefixSets_def Mapkeys_def
        GetIpPrefix_def GetMasklengthRange_def)
qed


theorem convertPrefixSets_masklength_range_witness:
  "map PrefixSetName (convertPrefixSets examplePrefixSets) = [''reject-10.33.0.0/16''] \<and>
   map PrefixList (convertPrefixSets examplePrefixSets) =
     [[\<lparr>IpPrefix = ''10.33.0.0/16'', MasklengthRange = ''''\<rparr>,
       \<lparr>IpPrefix = ''10.34.0.0/16'', MasklengthRange = ''16..23''\<rparr>]]"
  using convertPrefixSets_masklength_range [of examplePrefixSets]
  by simp

subsection \<open>Policy definitions\<close>

text \<open>The translation of a policy returns whenever the index map is within range.\<close>

lemma convertSetCommunities_returns:
  "indexMapInRange im ccs \<Longrightarrow> \<exists>r. convertSetCommunities sc ccs im = Some r"
  by (auto simp: indexMapInRange_def convertSetCommunities_def Let_def split: option.splits)

lemma convertStatement_returns:
  assumes "indexMapInRange im ccs"
  shows "\<exists>s ls. convertStatement lib cpn na occ ccs im st = Some (s, ls)"
proof -
  from convertSetCommunities_returns [OF assms]
  obtain r where "convertSetCommunities (GetBgpActions_GetSetCommunity st) ccs im = Some r"
    by blast
  then show ?thesis
    by (cases r) (auto simp: convertStatement_def Let_def split: prod.splits)
qed

lemma convertStatements_returns:
  assumes "indexMapInRange im ccs"
  shows "\<exists>r. convertStatements lib cpn na occ ccs im sts acc = Some r"
proof (induction sts arbitrary: acc)
  case Nil
  then show ?case by simp
next
  case (Cons st sts)
  obtain a lg where acc: "acc = (a, lg)" by (cases acc)
  from convertStatement_returns [OF assms]
  obtain s ls where "convertStatement lib cpn na occ ccs im st = Some (s, ls)"
    by blast
  with Cons acc show ?case by simp
qed

lemma convertPolicyDefinition_returns:
  assumes "indexMapInRange im ccs"
  shows "\<exists>pd lg. convertPolicyDefinition lib policy na occ ccs im = Some (pd, lg)"
proof -
  from convertStatements_returns [OF assms]
  obtain r where "convertStatements lib (convertPolicyName na (PolicyDefinition_GetName policy))
      na occ ccs im (Statement_Values policy) ([], []) = Some r"
    by blast
  then show ?thesis
    by (cases r) (simp add: convertPolicyDefinition_def Let_def)
qed

text \<open>
  C8. Every statement of a translated policy definition carries the owning neighbor's
  address as its neighbor-match condition, whatever neighbor set the intended statement
  specifies, and the translation has one statement for each intended statement.
\<close>

theorem neighbor_set_is_owning_neighbor:
  "convertPolicyDefinition lib policy neighAddr occommset convertedCommSets commSetIndexMap
     = Some (pd, lg) \<Longrightarrow>
   length (Statements pd) = length (Statement_Values policy) \<and>
   (\<forall>s \<in> set (Statements pd). MatchNeighborSet_NeighborSet s = neighAddr)"
proof -
  assume "convertPolicyDefinition lib policy neighAddr occommset convertedCommSets commSetIndexMap
     = Some (pd, lg)"
  from convertPolicyDefinition_statements(2) [OF this]
  show ?thesis
    by (auto simp: list_all2_conv_all_nth in_set_conv_nth)
qed

theorem neighbor_set_is_owning_neighbor_witness:
  "\<exists>pd lg.
     convertPolicyDefinition exampleGolib
       \<lparr>PolicyDefinition_GetName = ''def1'',
        Statement_Values =
          [(namedStatement ''stmt1'')\<lparr>GetMatchNeighborSet_GetNeighborSet := ''other-neighbors''\<rparr>,
           namedStatement ''stmt2'']\<rparr>
       ''192.0.2.1'' [] [] noCommunitySetIndex = Some (pd, lg) \<and>
     map MatchNeighborSet_NeighborSet (Statements pd) = [''192.0.2.1'', ''192.0.2.1'']"
proof -
  let ?policy = "\<lparr>PolicyDefinition_GetName = ''def1'',
        Statement_Values =
          [(namedStatement ''stmt1'')\<lparr>GetMatchNeighborSet_GetNeighborSet := ''other-neighbors''\<rparr>,
           namedStatement ''stmt2'']\<rparr>"
  have "indexMapInRange noCommunitySetIndex []"
    by (simp add: indexMapInRange_def noCommunitySetIndex_def)
  from convertPolicyDefinition_returns [OF this]
  obtain pd lg where
    r: "convertPolicyDefinition exampleGolib ?policy ''192.0.2.1'' [] [] noCommunitySetIndex = Some (pd, lg)"
    by blast
  from neighbor_set_is_owning_neighbor [OF r]
  have "length (Statements pd) = 2" "\<forall>s \<in> set (Statements pd). MatchNeighborSet_NeighborSet s = ''192.0.2.1''"
    by simp_all
  then have m: "map MatchNeighborSet_NeighborSet (Statements pd) = [''192.0.2.1'', ''192.0.2.1'']"
    by (cases "Statements pd"; cases "tl (Statements pd)") auto
  show ?thesis
    by (rule exI [where x = pd], rule exI [where x = lg]) (simp add: r m)
qed

text \<open>
  What the qualification does guarantee. Two distinct neighbors that define a policy of the
  same name get distinct qualified names. When the neighbor addresses contain no \<open>|\<close> (as
  no IP address does), distinct pairs of neighbor and policy name get distinct qualified names,
  and the pair is recovered by splitting the qualified name at its first \<open>|\<close>. Statement
  names are distinct for distinct triples of neighbor, policy name and statement name only
  when, moreover, the policy names contain no \<open>:\<close>.
\<close>

lemma qualified_names_unique_without_delimiters:
  "(a1 \<noteq> a2 \<longrightarrow> convertPolicyName a1 p \<noteq> convertPolicyName a2 p) \<and>
   (CHR ''|'' \<notin> set b1 \<and> CHR ''|'' \<notin> set b2 \<and> (b1, p1) \<noteq> (b2, p2) \<longrightarrow>
      convertPolicyName b1 p1 \<noteq> convertPolicyName b2 p2) \<and>
   (CHR ''|'' \<notin> set b1 \<longrightarrow>
      takeWhile (\<lambda>c. c \<noteq> CHR ''|'') (convertPolicyName b1 p1) = b1 \<and>
      tl (dropWhile (\<lambda>c. c \<noteq> CHR ''|'') (convertPolicyName b1 p1)) = p1) \<and>
   (CHR ''|'' \<notin> set n1 \<and> CHR ''|'' \<notin> set n2 \<and>
    CHR '':'' \<notin> set (PolicyDefinition_GetName pol1) \<and>
    CHR '':'' \<notin> set (PolicyDefinition_GetName pol2) \<and>
    convertPolicyDefinition lib1 pol1 n1 occ1 ccs1 im1 = Some (pd1, lg1) \<and>
    convertPolicyDefinition lib2 pol2 n2 occ2 ccs2 im2 = Some (pd2, lg2) \<and>
    i < length (Statement_Values pol1) \<and> j < length (Statement_Values pol2) \<and>
    (n1, PolicyDefinition_GetName pol1, Statement_GetName (Statement_Values pol1 ! i)) \<noteq>
    (n2, PolicyDefinition_GetName pol2, Statement_GetName (Statement_Values pol2 ! j)) \<longrightarrow>
      Name (Statements pd1 ! i) \<noteq> Name (Statements pd2 ! j))"
proof (intro conjI impI)
  assume "a1 \<noteq> a2"
  then show "convertPolicyName a1 p \<noteq> convertPolicyName a2 p"
    by (simp add: convertPolicyName_def)
next
  assume "CHR ''|'' \<notin> set b1 \<and> CHR ''|'' \<notin> set b2 \<and> (b1, p1) \<noteq> (b2, p2)"
  then show "convertPolicyName b1 p1 \<noteq> convertPolicyName b2 p2"
    using split_at_delimiter [of "CHR ''|''" b1 b2 p1 p2]
    by (auto simp: convertPolicyName_def)
next
  assume "CHR ''|'' \<notin> set b1"
  then show "takeWhile (\<lambda>c. c \<noteq> CHR ''|'') (convertPolicyName b1 p1) = b1"
    by (simp add: convertPolicyName_def takeWhile_delimiter)
next
  assume "CHR ''|'' \<notin> set b1"
  then show "tl (dropWhile (\<lambda>c. c \<noteq> CHR ''|'') (convertPolicyName b1 p1)) = p1"
    by (simp add: convertPolicyName_def dropWhile_delimiter)
next
  assume h: "CHR ''|'' \<notin> set n1 \<and> CHR ''|'' \<notin> set n2 \<and>
    CHR '':'' \<notin> set (PolicyDefinition_GetName pol1) \<and>
    CHR '':'' \<notin> set (PolicyDefinition_GetName pol2) \<and>
    convertPolicyDefinition lib1 pol1 n1 occ1 ccs1 im1 = Some (pd1, lg1) \<and>
    convertPolicyDefinition lib2 pol2 n2 occ2 ccs2 im2 = Some (pd2, lg2) \<and>
    i < length (Statement_Values pol1) \<and> j < length (Statement_Values pol2) \<and>
    (n1, PolicyDefinition_GetName pol1, Statement_GetName (Statement_Values pol1 ! i)) \<noteq>
    (n2, PolicyDefinition_GetName pol2, Statement_GetName (Statement_Values pol2 ! j))"
  let ?s1 = "Statement_GetName (Statement_Values pol1 ! i)"
  let ?s2 = "Statement_GetName (Statement_Values pol2 ! j)"
  let ?q1 = "PolicyDefinition_GetName pol1"
  let ?q2 = "PolicyDefinition_GetName pol2"
  from h convertPolicyDefinition_statements(2) [of lib1 pol1 n1 occ1 ccs1 im1 pd1 lg1]
  have name1: "Name (Statements pd1 ! i) = n1 @ CHR ''|'' # ?q1 @ CHR '':'' # ?s1"
    by (simp add: list_all2_conv_all_nth convertPolicyName_def)
  from h convertPolicyDefinition_statements(2) [of lib2 pol2 n2 occ2 ccs2 im2 pd2 lg2]
  have name2: "Name (Statements pd2 ! j) = n2 @ CHR ''|'' # ?q2 @ CHR '':'' # ?s2"
    by (simp add: list_all2_conv_all_nth convertPolicyName_def)
  show "Name (Statements pd1 ! i) \<noteq> Name (Statements pd2 ! j)"
  proof
    assume "Name (Statements pd1 ! i) = Name (Statements pd2 ! j)"
    with name1 name2
    have eq: "n1 @ CHR ''|'' # ?q1 @ CHR '':'' # ?s1 = n2 @ CHR ''|'' # ?q2 @ CHR '':'' # ?s2"
      by simp
    with h split_at_delimiter [of "CHR ''|''" n1 n2 "?q1 @ CHR '':'' # ?s1" "?q2 @ CHR '':'' # ?s2"]
    have n: "n1 = n2" and rest: "?q1 @ CHR '':'' # ?s1 = ?q2 @ CHR '':'' # ?s2"
      by simp_all
    from h rest split_at_delimiter [of "CHR '':''" ?q1 ?q2 ?s1 ?s2]
    have "?q1 = ?q2 \<and> ?s1 = ?s2" by simp
    with n h show False by simp
  qed
qed


lemma qualified_names_unique_example:
  "convertPolicyName ''10.0.0.1'' ''p'' \<noteq> convertPolicyName ''10.0.0.2'' ''p'' \<and>
   convertPolicyName ''10.0.0.1'' ''p'' \<noteq> convertPolicyName ''10.0.0.2'' ''q'' \<and>
   takeWhile (\<lambda>c. c \<noteq> CHR ''|'') (convertPolicyName ''10.0.0.1'' ''p'') = ''10.0.0.1'' \<and>
   tl (dropWhile (\<lambda>c. c \<noteq> CHR ''|'') (convertPolicyName ''10.0.0.1'' ''p'')) = ''p'' \<and>
   (\<exists>pd1 lg1 pd2 lg2.
      convertPolicyDefinition exampleGolib (examplePolicy ''p'' ''s'') ''10.0.0.1'' [] []
        noCommunitySetIndex = Some (pd1, lg1) \<and>
      convertPolicyDefinition exampleGolib (examplePolicy ''p'' ''s'') ''10.0.0.2'' [] []
        noCommunitySetIndex = Some (pd2, lg2) \<and>
      Name (Statements pd1 ! 0) \<noteq> Name (Statements pd2 ! 0))"
proof -
  have inrange: "indexMapInRange noCommunitySetIndex []"
    by (simp add: indexMapInRange_def noCommunitySetIndex_def)
  from convertPolicyDefinition_returns [OF inrange]
  obtain pd1 lg1 where r1:
    "convertPolicyDefinition exampleGolib (examplePolicy ''p'' ''s'') ''10.0.0.1'' [] []
       noCommunitySetIndex = Some (pd1, lg1)"
    by blast
  from convertPolicyDefinition_returns [OF inrange]
  obtain pd2 lg2 where r2:
    "convertPolicyDefinition exampleGolib (examplePolicy ''p'' ''s'') ''10.0.0.2'' [] []
       noCommunitySetIndex = Some (pd2, lg2)"
    by blast
  note u = qualified_names_unique_without_delimiters [where ?a1.0 = "''10.0.0.1''" and ?a2.0 = "''10.0.0.2''"
      and p = "''p''" and ?b1.0 = "''10.0.0.1''" and ?b2.0 = "''10.0.0.2''" and ?p1.0 = "''p''"
      and ?p2.0 = "''q''" and ?n1.0 = "''10.0.0.1''" and ?n2.0 = "''10.0.0.2''"
      and ?pol1.0 = "examplePolicy ''p'' ''s''" and ?pol2.0 = "examplePolicy ''p'' ''s''"
      and ?lib1.0 = exampleGolib and ?lib2.0 = exampleGolib and ?occ1.0 = "[]" and ?occ2.0 = "[]"
      and ?ccs1.0 = "[]" and ?ccs2.0 = "[]" and ?im1.0 = noCommunitySetIndex
      and ?im2.0 = noCommunitySetIndex and ?pd1.0 = pd1 and ?lg1.0 = lg1 and ?pd2.0 = pd2
      and ?lg2.0 = lg2 and i = 0 and j = 0]
  have names: "Name (Statements pd1 ! 0) \<noteq> Name (Statements pd2 ! 0)"
    using u r1 r2 by (simp add: examplePolicy_def)
  have rest: "convertPolicyName ''10.0.0.1'' ''p'' \<noteq> convertPolicyName ''10.0.0.2'' ''p'' \<and>
   convertPolicyName ''10.0.0.1'' ''p'' \<noteq> convertPolicyName ''10.0.0.2'' ''q'' \<and>
   takeWhile (\<lambda>c. c \<noteq> CHR ''|'') (convertPolicyName ''10.0.0.1'' ''p'') = ''10.0.0.1'' \<and>
   tl (dropWhile (\<lambda>c. c \<noteq> CHR ''|'') (convertPolicyName ''10.0.0.1'' ''p'')) = ''p''"
    using u by simp
  show ?thesis
    by (intro conjI exI [where x = pd1] exI [where x = lg1] exI [where x = pd2]
        exI [where x = lg2]) (simp_all add: rest r1 r2 names)
qed

text \<open>
  C7. The policy-name half holds for neighbors that are IP addresses (the lemma above), but
  statement names are not globally unique, although the source says of the qualification
  that it ensures their uniqueness. Under the one neighbor 10.0.0.1, the policies \<open>p\<close> and
  \<open>p:a\<close> get distinct qualified names, and yet statement \<open>a:b\<close> of policy \<open>p\<close> and
  statement \<open>b\<close> of policy \<open>p:a\<close> both get the name \<open>10.0.0.1|p:a:b\<close>.
\<close>

theorem qualified_statement_names_collide:
  "convertPolicyName ''10.0.0.1'' ''p'' \<noteq> convertPolicyName ''10.0.0.1'' ''p:a'' \<and>
   statementNames (convertPolicyDefinition exampleGolib (examplePolicy ''p'' ''a:b'') ''10.0.0.1''
       [] [] noCommunitySetIndex) = Some [''10.0.0.1|p:a:b''] \<and>
   statementNames (convertPolicyDefinition exampleGolib (examplePolicy ''p:a'' ''b'') ''10.0.0.1''
       [] [] noCommunitySetIndex) = Some [''10.0.0.1|p:a:b'']"
  by (simp add: convertPolicyName_def statementNames_def convertPolicyDefinition_def
      examplePolicy_def namedStatement_def convertStatement_def convertSetCommunities_def
      convertMED_def SetCommunity_Method_INLINE_def SetCommunity_Method_REFERENCE_def Let_def)

section \<open>Properties of the BGP task\<close>

subsection \<open>Publishing the applied state\<close>

lemma updateAppliedStateHelper_fields:
  "appliedBGP (updateAppliedStateHelper Replace p v t) = appliedBGP t"
  "appliedRoutingPolicy (updateAppliedStateHelper Replace p v t) = appliedRoutingPolicy t"
  "appliedState_rest (updateAppliedStateHelper Replace p v t) = appliedState_rest t"
  "currentConfig (updateAppliedStateHelper Replace p v t) = currentConfig t"
  "bgpStarted (updateAppliedStateHelper Replace p v t) = bgpStarted t"
  "yclient (updateAppliedStateHelper Replace p v t) = snd (Replace p v (yclient t))"
  by (simp_all add: updateAppliedStateHelper_def split: prod.splits option.splits)


text \<open>
  C1. For every mutator: when the mutator returns an error, \<open>updateAppliedState\<close> returns
  that error and the task exactly as the mutator left it, whatever the store's replace
  operation is, so nothing is published; when the mutator succeeds, \<open>updateAppliedState\<close>
  returns success after issuing the replace of the applied BGP tree at the BGP state path and
  then the replace of the applied routing-policy tree at the routing-policy state path, both
  with the trees as the mutator left them.
\<close>

theorem updateAppliedState_publishes_after_success_only:
  "(f t = (Some err, t1) \<longrightarrow> updateAppliedState Replace f t = (Some err, t1)) \<and>
   (f t = (None, t1) \<longrightarrow>
      fst (updateAppliedState Replace f t) = None \<and>
      yclient (snd (updateAppliedState Replace f t)) =
        snd (Replace RoutingPolicyStatePath (RoutingPolicyTree (appliedRoutingPolicy t1))
          (snd (Replace BGPStatePath (BgpTree (appliedBGP t1)) (yclient t1)))) \<and>
      appliedBGP (snd (updateAppliedState Replace f t)) = appliedBGP t1 \<and>
      appliedRoutingPolicy (snd (updateAppliedState Replace f t)) = appliedRoutingPolicy t1)"
  by (simp add: updateAppliedState_def Let_def updateAppliedStateHelper_fields)

theorem updateAppliedState_publishes_after_success_only_witness:
  "yclient (snd (updateAppliedState recordingReplace failingMutator exampleTask)) = [] \<and>
   fst (updateAppliedState recordingReplace failingMutator exampleTask) =
     Some (ExternalError ''mutation failed'') \<and>
   fst (updateAppliedState recordingReplace succeedingMutator exampleTask) = None \<and>
   yclient (snd (updateAppliedState recordingReplace succeedingMutator exampleTask)) =
     [(BGPStatePath, BgpTree (exampleIntendedBgp ''1.1.1.1'')),
      (RoutingPolicyStatePath, RoutingPolicyTree ''routing-policy'')]"
  using updateAppliedState_publishes_after_success_only
    [of failingMutator exampleTask "ExternalError ''mutation failed''"
        "exampleTask\<lparr>appliedBGP := exampleIntendedBgp ''1.1.1.1''\<rparr>" recordingReplace]
    updateAppliedState_publishes_after_success_only
    [of succeedingMutator exampleTask "ExternalError ''mutation failed''"
        "exampleTask\<lparr>appliedBGP := exampleIntendedBgp ''1.1.1.1''\<rparr>" recordingReplace]
  by (simp add: failingMutator_def succeedingMutator_def recordingReplace_def exampleTask_def)

subsection \<open>Reconciliation\<close>

text \<open>
  C10. In the stop transition (the task is started, the intended configuration no longer
  sets both AS and router-id, and the engine accepts the stop) the pass succeeds, the task
  is no longer started, the applied BGP tree is the empty tree with the schema defaults
  populated and the snapshot is the empty configuration; the applied routing-policy tree and
  the rest of the applied-state root are unchanged, as is every other field of the task but
  the engine.
\<close>

theorem reconcile_stop_frame:
  "bgpStarted t \<and> \<not> bgpShouldStart intended \<and> StopBgp eng (bgpServer t) = (None, srv) \<longrightarrow>
     fst (reconcile eng lib intended t) = None \<and>
     \<not> bgpStarted (snd (reconcile eng lib intended t)) \<and>
     appliedBGP (snd (reconcile eng lib intended t)) = Bgp_PopulateDefaults eng emptyBgp \<and>
     currentConfig (snd (reconcile eng lib intended t)) = Some emptyBgpConfigSet \<and>
     appliedRoutingPolicy (snd (reconcile eng lib intended t)) = appliedRoutingPolicy t \<and>
     appliedState_rest (snd (reconcile eng lib intended t)) = appliedState_rest t \<and>
     snd (reconcile eng lib intended t) =
       t\<lparr>bgpServer := srv, bgpStarted := False, currentConfig := Some emptyBgpConfigSet,
         appliedBGP := Bgp_PopulateDefaults eng emptyBgp\<rparr>"
  by (simp add: reconcile_def Let_def)

theorem reconcile_stop_frame_witness:
  "bgpStarted startedTask \<and> \<not> bgpShouldStart emptyIntended \<and>
   appliedBGP startedTask = exampleIntendedBgp ''1.1.1.1'' \<and>
   currentConfig startedTask = Some lastGoodConfig \<and>
   fst (reconcile rejectingEngine exampleNetip emptyIntended startedTask) = None \<and>
   appliedBGP (snd (reconcile rejectingEngine exampleNetip emptyIntended startedTask)) =
     \<lparr>Bgp_Global = Some \<lparr>As = None, RouterId = None\<rparr>, Bgp_Neighbor = [], Bgp_Rib = None\<rparr> \<and>
   currentConfig (snd (reconcile rejectingEngine exampleNetip emptyIntended startedTask)) =
     Some emptyBgpConfigSet \<and>
   appliedRoutingPolicy (snd (reconcile rejectingEngine exampleNetip emptyIntended startedTask)) =
     ''routing-policy'' \<and>
   appliedState_rest (snd (reconcile rejectingEngine exampleNetip emptyIntended startedTask)) =
     ''rest''"
  using reconcile_stop_frame [of startedTask emptyIntended rejectingEngine 1 exampleNetip]
  by (simp add: startedTask_def exampleTask_def emptyIntended_def bgpShouldStart_def
      GetOrCreateBgp_def GetOrCreateGlobal_def emptyBgp_def rejectingEngine_def)

text \<open>
  What a failed engine call leaves behind: the error is surfaced and the started flag keeps
  its value, but the snapshot becomes the configuration pointer that the call returned with
  its error. Only the stop case leaves the snapshot alone.
\<close>

lemma reconcile_update_failure:
  assumes "bgpStarted t" "bgpShouldStart intended"
    and "UpdateConfig eng (appliedBGP t) (bgpServer t) (currentConfig t)
           (intendedToGoBGP lib (GetOrCreateBgp intended) (zapiURL t) (listenPort t))
         = ((cfg, Some e), applied, srv)"
  shows "fst (reconcile eng lib intended t) =
           Some (FailedUpdate (intendedToGoBGP lib (GetOrCreateBgp intended) (zapiURL t) (listenPort t)))"
    and "bgpStarted (snd (reconcile eng lib intended t))"
    and "currentConfig (snd (reconcile eng lib intended t)) = cfg"
  using assms by (simp_all add: reconcile_def Let_def)

lemma reconcile_start_failure:
  assumes "\<not> bgpStarted t" "bgpShouldStart intended"
    and "InitialConfig eng (appliedBGP t) (bgpServer t)
           (intendedToGoBGP lib (GetOrCreateBgp intended) (zapiURL t) (listenPort t)) gracefulRestart
         = ((cfg, Some e), applied, srv)"
  shows "fst (reconcile eng lib intended t) =
           Some (FailedInitialConfig (intendedToGoBGP lib (GetOrCreateBgp intended) (zapiURL t) (listenPort t)))"
    and "\<not> bgpStarted (snd (reconcile eng lib intended t))"
    and "currentConfig (snd (reconcile eng lib intended t)) = cfg"
  using assms by (simp_all add: reconcile_def Let_def)

lemma reconcile_stop_failure:
  assumes "bgpStarted t" "\<not> bgpShouldStart intended"
    and "StopBgp eng (bgpServer t) = (Some e, srv)"
  shows "reconcile eng lib intended t = (Some FailedStop, t\<lparr>bgpServer := srv\<rparr>)"
  using assms by (simp add: reconcile_def Let_def)

text \<open>
  C3. The snapshot is not left at its last-known-good value. With an engine whose update and
  start return a nil configuration with their error, a failed update of a started task
  replaces the snapshot of the last successful pass by nil, and a failed start replaces the
  initial empty snapshot by nil; the error is surfaced in both cases.
\<close>

theorem reconcile_failure_overwrites_snapshot:
  "currentConfig startedTask = Some lastGoodConfig \<and>
   fst (reconcile rejectingEngine exampleNetip (exampleIntended ''1.1.1.1'') startedTask) =
     Some (FailedUpdate lastGoodConfig) \<and>
   currentConfig (snd (reconcile rejectingEngine exampleNetip (exampleIntended ''1.1.1.1'') startedTask)) =
     None \<and>
   currentConfig exampleTask = Some emptyBgpConfigSet \<and>
   fst (reconcile rejectingEngine exampleNetip (exampleIntended ''1.1.1.1'') exampleTask) =
     Some (FailedInitialConfig lastGoodConfig) \<and>
   currentConfig (snd (reconcile rejectingEngine exampleNetip (exampleIntended ''1.1.1.1'') exampleTask)) =
     None"
  by (simp add: reconcile_def Let_def startedTask_def exampleTask_def exampleIntended_def
      bgpShouldStart_def GetOrCreateBgp_def GetOrCreateGlobal_def exampleIntendedBgp_def
      rejectingEngine_def lastGoodConfig_def)


subsection \<open>The local transport address\<close>

text \<open>
  C9, as stated, fails: the local address is the text form of the parsed address, not the
  router-id as written. The router-id \<open>0:0:0:0:0:0:0:1\<close> parses as the IPv6 loopback
  address, and the local address of the neighbor is \<open>::1\<close>.
\<close>

theorem local_address_is_not_the_router_id:
  "Global_Config_RouterId
     (intendedToGoBGP exampleNetip (exampleIntendedBgp ''0:0:0:0:0:0:0:1'') '''' 179) =
     ''0:0:0:0:0:0:0:1'' \<and>
   map_option (IsLoopback exampleNetip) (ParseAddr exampleNetip ''0:0:0:0:0:0:0:1'') = Some True \<and>
   map Transport_Config_LocalAddress
     (Neighbors (intendedToGoBGP exampleNetip (exampleIntendedBgp ''0:0:0:0:0:0:0:1'') '''' 179)) =
     [''::1'']"
  by (simp add: intendedToGoBGP_def exampleNetip_def exampleIntendedBgp_def GetOrCreateGlobal_def
      GetRouterId_def Let_def)

lemma intendedToGoBGP_local_address:
  "n \<in> set (Neighbors (intendedToGoBGP lib bgpoc zapiURL' listenPort')) \<Longrightarrow>
     Transport_Config_LocalAddress n =
       (case ParseAddr lib (GetRouterId (GetOrCreateGlobal bgpoc)) of
          None \<Rightarrow> ''''
        | Some a \<Rightarrow> if IsLoopback lib a then Addr_String lib a else '''')"
  by (auto simp: intendedToGoBGP_def Let_def)

lemma intendedToGoBGP_neighbor_addresses:
  "map Config_NeighborAddress (Neighbors (intendedToGoBGP lib bgpoc zapiURL' listenPort')) =
     map fst (Bgp_Neighbor bgpoc)"
  by (simp add: intendedToGoBGP_def Let_def split_def comp_def)

lemma intendedToGoBGP_router_id:
  "Global_Config_RouterId (intendedToGoBGP lib bgpoc zapiURL' listenPort') =
     GetRouterId (GetOrCreateGlobal bgpoc)"
  by (simp add: intendedToGoBGP_def Let_def)

text \<open>
  C9, amended. The local transport address of every neighbor of the engine configuration is
  the canonical text form of the parsed router-id when the router-id parses as an IP address
  that is a loopback address, and the empty string otherwise. It equals the router-id when
  the router-id is already in that canonical form. A router-id that does not parse, or that
  parses to an address that is not a loopback address (as 1.1.1.1 does), yields the empty
  string. There is one engine neighbor for each intended neighbor, and the router-id itself
  is copied unchanged.
\<close>

theorem local_address_from_router_id:
  "(\<forall>n \<in> set (Neighbors (intendedToGoBGP lib bgpoc zapiURL' listenPort')).
      Transport_Config_LocalAddress n =
        (case ParseAddr lib (GetRouterId (GetOrCreateGlobal bgpoc)) of
           None \<Rightarrow> ''''
         | Some a \<Rightarrow> if IsLoopback lib a then Addr_String lib a else '''')) \<and>
   (ParseAddr lib (GetRouterId (GetOrCreateGlobal bgpoc)) = Some a \<and> IsLoopback lib a \<and>
    Addr_String lib a = GetRouterId (GetOrCreateGlobal bgpoc) \<longrightarrow>
      (\<forall>n \<in> set (Neighbors (intendedToGoBGP lib bgpoc zapiURL' listenPort')).
         Transport_Config_LocalAddress n = GetRouterId (GetOrCreateGlobal bgpoc))) \<and>
   (ParseAddr lib (GetRouterId (GetOrCreateGlobal bgpoc)) = None \<or>
    (\<exists>b. ParseAddr lib (GetRouterId (GetOrCreateGlobal bgpoc)) = Some b \<and> \<not> IsLoopback lib b) \<longrightarrow>
      (\<forall>n \<in> set (Neighbors (intendedToGoBGP lib bgpoc zapiURL' listenPort')).
         Transport_Config_LocalAddress n = '''')) \<and>
   map Config_NeighborAddress (Neighbors (intendedToGoBGP lib bgpoc zapiURL' listenPort')) =
     map fst (Bgp_Neighbor bgpoc) \<and>
   Global_Config_RouterId (intendedToGoBGP lib bgpoc zapiURL' listenPort') =
     GetRouterId (GetOrCreateGlobal bgpoc)"
proof (intro conjI impI ballI)
  fix n
  assume "n \<in> set (Neighbors (intendedToGoBGP lib bgpoc zapiURL' listenPort'))"
  then show "Transport_Config_LocalAddress n =
        (case ParseAddr lib (GetRouterId (GetOrCreateGlobal bgpoc)) of
           None \<Rightarrow> ''''
         | Some a \<Rightarrow> if IsLoopback lib a then Addr_String lib a else '''')"
    by (rule intendedToGoBGP_local_address)
next
  fix n
  assume "ParseAddr lib (GetRouterId (GetOrCreateGlobal bgpoc)) = Some a \<and> IsLoopback lib a \<and>
    Addr_String lib a = GetRouterId (GetOrCreateGlobal bgpoc)"
    and "n \<in> set (Neighbors (intendedToGoBGP lib bgpoc zapiURL' listenPort'))"
  then show "Transport_Config_LocalAddress n = GetRouterId (GetOrCreateGlobal bgpoc)"
    by (simp add: intendedToGoBGP_local_address)
next
  fix n
  assume "ParseAddr lib (GetRouterId (GetOrCreateGlobal bgpoc)) = None \<or>
    (\<exists>b. ParseAddr lib (GetRouterId (GetOrCreateGlobal bgpoc)) = Some b \<and> \<not> IsLoopback lib b)"
    and "n \<in> set (Neighbors (intendedToGoBGP lib bgpoc zapiURL' listenPort'))"
  then show "Transport_Config_LocalAddress n = ''''"
    by (auto simp: intendedToGoBGP_local_address)
next
  show "map Config_NeighborAddress (Neighbors (intendedToGoBGP lib bgpoc zapiURL' listenPort')) =
     map fst (Bgp_Neighbor bgpoc)"
    by (rule intendedToGoBGP_neighbor_addresses)
next
  show "Global_Config_RouterId (intendedToGoBGP lib bgpoc zapiURL' listenPort') =
     GetRouterId (GetOrCreateGlobal bgpoc)"
    by (rule intendedToGoBGP_router_id)
qed


theorem local_address_from_router_id_witness:
  "map Transport_Config_LocalAddress
     (Neighbors (intendedToGoBGP exampleNetip (exampleIntendedBgp ''1.1.1.1'') '''' 179)) = [''''] \<and>
   map Transport_Config_LocalAddress
     (Neighbors (intendedToGoBGP exampleNetip (exampleIntendedBgp ''127.0.0.1'') '''' 179)) =
     [''127.0.0.1''] \<and>
   map Transport_Config_LocalAddress
     (Neighbors (intendedToGoBGP exampleNetip (exampleIntendedBgp ''router'') '''' 179)) = ['''']"
proof -
  have rid: "GetRouterId (GetOrCreateGlobal (exampleIntendedBgp r)) = r" for r
    by (simp add: GetRouterId_def GetOrCreateGlobal_def exampleIntendedBgp_def)
  have one: "\<exists>x. Neighbors (intendedToGoBGP exampleNetip (exampleIntendedBgp r) '''' 179) = [x]" for r
    by (simp add: intendedToGoBGP_def exampleIntendedBgp_def Let_def)
  have all: "map f xs = [v]" if "\<exists>x. xs = [x]" and "\<forall>n \<in> set xs. f n = v" for f :: "Neighbor \<Rightarrow> string" and xs v
    using that by auto
  have h1: "ParseAddr exampleNetip (GetRouterId (GetOrCreateGlobal (exampleIntendedBgp ''1.1.1.1''))) = None \<or>
      (\<exists>b. ParseAddr exampleNetip (GetRouterId (GetOrCreateGlobal (exampleIntendedBgp ''1.1.1.1''))) = Some b \<and>
           \<not> IsLoopback exampleNetip b)"
    by (simp add: rid exampleNetip_def)
  have a: "\<forall>n \<in> set (Neighbors (intendedToGoBGP exampleNetip (exampleIntendedBgp ''1.1.1.1'') '''' 179)).
      Transport_Config_LocalAddress n = ''''"
    by (rule local_address_from_router_id [where lib = exampleNetip
          and bgpoc = "exampleIntendedBgp ''1.1.1.1''",
          THEN conjunct2, THEN conjunct2, THEN conjunct1, THEN mp, OF h1])
  have h2: "ParseAddr exampleNetip (GetRouterId (GetOrCreateGlobal (exampleIntendedBgp ''127.0.0.1''))) =
        Some ''127.0.0.1'' \<and> IsLoopback exampleNetip ''127.0.0.1'' \<and>
      Addr_String exampleNetip ''127.0.0.1'' = GetRouterId (GetOrCreateGlobal (exampleIntendedBgp ''127.0.0.1''))"
    by (simp add: rid exampleNetip_def)
  have "\<forall>n \<in> set (Neighbors (intendedToGoBGP exampleNetip (exampleIntendedBgp ''127.0.0.1'') '''' 179)).
      Transport_Config_LocalAddress n = GetRouterId (GetOrCreateGlobal (exampleIntendedBgp ''127.0.0.1''))"
    by (rule local_address_from_router_id [where lib = exampleNetip
          and bgpoc = "exampleIntendedBgp ''127.0.0.1''" and a = "''127.0.0.1''",
          THEN conjunct2, THEN conjunct1, THEN mp, OF h2])
  then have b: "\<forall>n \<in> set (Neighbors (intendedToGoBGP exampleNetip (exampleIntendedBgp ''127.0.0.1'') '''' 179)).
      Transport_Config_LocalAddress n = ''127.0.0.1''"
    by (simp only: rid)
  have h3: "ParseAddr exampleNetip (GetRouterId (GetOrCreateGlobal (exampleIntendedBgp ''router''))) = None \<or>
      (\<exists>b. ParseAddr exampleNetip (GetRouterId (GetOrCreateGlobal (exampleIntendedBgp ''router''))) = Some b \<and>
           \<not> IsLoopback exampleNetip b)"
    by (simp add: rid exampleNetip_def)
  have c: "\<forall>n \<in> set (Neighbors (intendedToGoBGP exampleNetip (exampleIntendedBgp ''router'') '''' 179)).
      Transport_Config_LocalAddress n = ''''"
    by (rule local_address_from_router_id [where lib = exampleNetip
          and bgpoc = "exampleIntendedBgp ''router''",
          THEN conjunct2, THEN conjunct2, THEN conjunct1, THEN mp, OF h3])
  show ?thesis
    by (intro conjI all one a b c)
qed

subsection \<open>Peer state events\<close>














end

